theory Spec2Isabelle
  imports Complex_Main
begin

section \<open>Data model\<close>

text \<open>
  The recommendation engine of \<^verbatim>\<open>backend/app/services/recommendation_engine.py\<close>
  over the two tables it reads, \<^verbatim>\<open>books\<close> and \<^verbatim>\<open>user_interactions\<close>.
  Python integers are \<open>int\<close>, Python floats are idealised as \<open>real\<close>, strings are
  \<open>string\<close>. A table is the list of its rows in the order the database enumerates them
  when a query has no \<^verbatim>\<open>ORDER BY\<close>.
\<close>

datatype interaction_type = View | Like | Request | Search

record book =
  bk_id :: int
  bk_user_id :: int
  title :: string
  author :: string
  category :: string
  condition :: string
  description :: "string option"
  available :: bool

record user_interaction =
  ui_id :: int
  ui_user_id :: int
  ui_book_id :: int
  interaction_type :: interaction_type

text \<open>
  The application is configured for MySQL and its tests switch to SQLite; the two differ
  on a negative \<^verbatim>\<open>LIMIT\<close>, which \<^verbatim>\<open>_get_popular_books\<close> can send.
\<close>

datatype dialect = MySQL | SQLite

record database =
  books :: "book list"
  user_interactions :: "user_interaction list"
  dialect :: dialect

datatype error = ValueError | IndexError | KeyError | ProgrammingError

record user_profile =
  categories :: "(string \<times> real) list"
  authors :: "(string \<times> real) list"
  interaction_count :: nat

record recommendation =
  rec_book :: book
  relevance_score :: real
  recommendation_reason :: string

record book_feature =
  bf_title :: string
  bf_author :: string
  bf_category :: string
  bf_condition :: string
  bf_description :: string
  bf_user_id :: int

text \<open>
  The keyword arguments the source passes to \<^verbatim>\<open>TfidfVectorizer\<close>.
\<close>

record tfidf_params =
  max_features :: nat
  stop_words :: string
  ngram_range :: "nat \<times> nat"
  min_df :: nat
  max_df :: real

text \<open>
  scikit-learn is not part of the repository. Its vectorizer is a parameter \<open>sk\<close> of the
  model: \<open>sk p corpus\<close> is \<^verbatim>\<open>TfidfVectorizer(**p).fit(corpus)\<close>, either a
  \<^verbatim>\<open>ValueError\<close> (empty vocabulary), written \<open>None\<close>, or the fitted
  \<^verbatim>\<open>transform\<close> from a document to its row of weights;
  \<^verbatim>\<open>fit_transform(corpus)\<close> is that transform mapped over the corpus.
\<close>

type_synonym sklearn = "tfidf_params \<Rightarrow> string list \<Rightarrow> (string \<Rightarrow> real list) option"

record engine =
  vectorizer :: tfidf_params
  tfidf_matrix :: "real list list option"
  book_ids :: "int list"
  book_features :: "int \<rightharpoonup> book_feature"
  user_profiles :: "int \<rightharpoonup> user_profile"

definition default_params :: tfidf_params where
  "default_params = \<lparr>max_features = 5000, stop_words = ''english'', ngram_range = (1, 2),
     min_df = 1, max_df = 1\<rparr>"

definition single_params :: tfidf_params where
  "single_params = \<lparr>max_features = 1000, stop_words = ''english'', ngram_range = (1, 1),
     min_df = 1, max_df = 1\<rparr>"

definition init_engine :: engine where
  "init_engine = \<lparr>vectorizer = default_params, tfidf_matrix = None, book_ids = [],
     book_features = Map.empty, user_profiles = Map.empty\<rparr>"

section \<open>Python and SQL primitives\<close>

text \<open>An insertion-ordered \<^verbatim>\<open>dict\<close>: a list of pairs with distinct keys.\<close>

fun dict_set :: "'k \<Rightarrow> 'v \<Rightarrow> ('k \<times> 'v) list \<Rightarrow> ('k \<times> 'v) list" where
  "dict_set k v [] = [(k, v)]"
| "dict_set k v ((k', v') # d) = (if k = k' then (k', v) # d else (k', v') # dict_set k v d)"

text \<open>\<^verbatim>\<open>d[k] += w\<close> on a \<^verbatim>\<open>defaultdict(float)\<close>.\<close>

fun dict_add :: "'k \<Rightarrow> real \<Rightarrow> ('k \<times> real) list \<Rightarrow> ('k \<times> real) list" where
  "dict_add k w [] = [(k, 0 + w)]"
| "dict_add k w ((k', v') # d) = (if k = k' then (k', v' + w) # d else (k', v') # dict_add k w d)"

text \<open>\<^verbatim>\<open>d.get(k, 0)\<close>.\<close>

definition dict_get0 :: "('k \<times> real) list \<Rightarrow> 'k \<Rightarrow> real" where
  "dict_get0 d k = (case map_of d k of None \<Rightarrow> 0 | Some v \<Rightarrow> v)"

text \<open>\<^verbatim>\<open>xs.index(x)\<close>, used only behind a membership test.\<close>

fun index_of :: "'a \<Rightarrow> 'a list \<Rightarrow> nat" where
  "index_of x [] = 0"
| "index_of x (y # ys) = (if x = y then 0 else Suc (index_of x ys))"

text \<open>\<^verbatim>\<open>m[i][j]\<close> on a numpy matrix with non-negative indices.\<close>

definition mat_get :: "real list list \<Rightarrow> nat \<Rightarrow> nat \<Rightarrow> error + real" where
  "mat_get m i j =
     (if i < length m \<and> j < length (m ! i) then Inr (m ! i ! j) else Inl IndexError)"

text \<open>The slice \<^verbatim>\<open>xs[:n]\<close>: a negative \<open>n\<close> counts from the end.\<close>

definition slice_to :: "int \<Rightarrow> 'a list \<Rightarrow> 'a list" where
  "slice_to n xs = (if 0 \<le> n then take (nat n) xs else take (length xs - nat (- n)) xs)"

text \<open>
  \<^verbatim>\<open>sorted(items, key=lambda x: x[1], reverse=True)\<close>: descending in the key, and
  stable (equal keys keep their order in \<open>items\<close>).
\<close>

definition sorted_desc :: "('a \<Rightarrow> 'k::linorder) \<Rightarrow> 'a list \<Rightarrow> 'a list" where
  "sorted_desc f xs = rev (sort_key f (rev xs))"

text \<open>
  \<^verbatim>\<open>round(x, 3)\<close> on the idealised reals: the nearest multiple of \<open>1/1000\<close>, a tie
  going to the even one.
\<close>

definition py_round3 :: "real \<Rightarrow> real" where
  "py_round3 x =
     (let y = x * 1000; f = \<lfloor>y\<rfloor>; d = y - of_int f
      in of_int (if d < 1/2 then f else if 1/2 < d then f + 1
                 else if even f then f else f + 1) / 1000)"

text \<open>\<^verbatim>\<open>str(n)\<close> for a count.\<close>

definition digit_char :: "nat \<Rightarrow> char" where
  "digit_char d = ''0123456789'' ! d"

fun str_nat :: "nat \<Rightarrow> string" where
  "str_nat n = (if n < 10 then [digit_char n] else str_nat (n div 10) @ [digit_char (n mod 10)])"

declare str_nat.simps [simp del]

text \<open>
  \<^verbatim>\<open>.limit(n)\<close>: MySQL rejects a negative \<^verbatim>\<open>LIMIT\<close>, SQLite reads it as no
  limit.
\<close>

definition sql_limit :: "dialect \<Rightarrow> int \<Rightarrow> 'a list \<Rightarrow> error + 'a list" where
  "sql_limit dl n rows =
     (if 0 \<le> n then Inr (take (nat n) rows)
      else case dl of MySQL \<Rightarrow> Inl ProgrammingError | SQLite \<Rightarrow> Inr rows)"

text \<open>\<^verbatim>\<open>Book.query.get(id)\<close>.\<close>

definition book_get :: "database \<Rightarrow> int \<Rightarrow> book option" where
  "book_get db i = find (\<lambda>b. bk_id b = i) (books db)"

text \<open>\<^verbatim>\<open>UserInteraction.query.filter_by(user_id=user_id).all()\<close>.\<close>

definition interactions_of :: "database \<Rightarrow> int \<Rightarrow> user_interaction list" where
  "interactions_of db u = filter (\<lambda>i. ui_user_id i = u) (user_interactions db)"

section \<open>Text preprocessing and corpus\<close>

definition is_upper :: "char \<Rightarrow> bool" where
  "is_upper c = (65 \<le> (of_char c :: nat) \<and> (of_char c :: nat) \<le> 90)"

definition is_letter :: "char \<Rightarrow> bool" where
  "is_letter c = ((65 \<le> (of_char c :: nat) \<and> (of_char c :: nat) \<le> 90)
     \<or> (97 \<le> (of_char c :: nat) \<and> (of_char c :: nat) \<le> 122))"

text \<open>The ASCII characters Python counts as whitespace in \<^verbatim>\<open>\s\<close> and \<^verbatim>\<open>split()\<close>.\<close>

definition is_space :: "char \<Rightarrow> bool" where
  "is_space c = ((9 \<le> (of_char c :: nat) \<and> (of_char c :: nat) \<le> 13)
     \<or> (28 \<le> (of_char c :: nat) \<and> (of_char c :: nat) \<le> 32))"

definition lower_char :: "char \<Rightarrow> char" where
  "lower_char c = (if is_upper c then char_of ((of_char c :: nat) + 32) else c)"

text \<open>\<^verbatim>\<open>text.split()\<close>: the maximal runs of non-whitespace.\<close>

fun split_ws :: "string \<Rightarrow> string \<Rightarrow> string list" where
  "split_ws cur [] = (if cur = [] then [] else [rev cur])"
| "split_ws cur (c # cs) =
     (if is_space c then (if cur = [] then split_ws [] cs else rev cur # split_ws [] cs)
      else split_ws (c # cur) cs)"

fun join_sp :: "string list \<Rightarrow> string" where
  "join_sp [] = []"
| "join_sp [w] = w"
| "join_sp (w # ws) = w @ '' '' @ join_sp ws"

definition preprocess_text :: "string \<Rightarrow> string" where
  "preprocess_text text =
     (if text = [] then []
      else join_sp (split_ws []
             (map (\<lambda>c. if is_letter c \<or> is_space c then c else CHR '' '')
                (map lower_char text))))"

definition text_content :: "book \<Rightarrow> string" where
  "text_content b =
     (let t = title b @ '' '' @ author b @ '' '' @ category b
      in case description b of
           None \<Rightarrow> t
         | Some d \<Rightarrow> (if d = [] then t else t @ '' '' @ d))"

definition feature_of :: "book \<Rightarrow> book_feature" where
  "feature_of b = \<lparr>bf_title = title b, bf_author = author b, bf_category = category b,
     bf_condition = condition b,
     bf_description = (case description b of None \<Rightarrow> [] | Some d \<Rightarrow> d),
     bf_user_id = bk_user_id b\<rparr>"

text \<open>
  \<^verbatim>\<open>build_corpus\<close> returns the corpus and rewrites \<^verbatim>\<open>book_ids\<close> and
  \<^verbatim>\<open>book_features\<close>.
\<close>

definition available_books :: "database \<Rightarrow> book list" where
  "available_books db = filter available (books db)"

definition build_corpus :: "engine \<Rightarrow> database \<Rightarrow> string list \<times> engine" where
  "build_corpus e db =
     (let bs = available_books db
      in (map (\<lambda>b. preprocess_text (text_content b)) bs,
          e\<lparr>book_ids := map bk_id bs,
            book_features := fold (\<lambda>b m. m(bk_id b \<mapsto> feature_of b)) bs Map.empty\<rparr>))"

section \<open>Model fitting and similarity\<close>

text \<open>
  An exception leaves the call without a result; the model then returns \<open>Inl\<close> and drops
  the half-updated engine.
\<close>

definition fit_tfidf_model :: "sklearn \<Rightarrow> engine \<Rightarrow> database \<Rightarrow> error + engine" where
  "fit_tfidf_model sk e db =
     (case build_corpus e db of (corpus, e1) \<Rightarrow>
        if corpus = [] then Inr (e1\<lparr>tfidf_matrix := Some []\<rparr>)
        else let v = (if length corpus = 1 then single_params else vectorizer e1)
             in (case sk v corpus of
                   None \<Rightarrow> Inl ValueError
                 | Some tr \<Rightarrow>
                     Inr (e1\<lparr>tfidf_matrix := Some (map tr corpus), vectorizer := v\<rparr>)))"

text \<open>\<^verbatim>\<open>update_model\<close>: refit, then clear the profile cache.\<close>

definition update_model :: "sklearn \<Rightarrow> engine \<Rightarrow> database \<Rightarrow> error + engine" where
  "update_model sk e db =
     (case fit_tfidf_model sk e db of
        Inl err \<Rightarrow> Inl err
      | Inr e1 \<Rightarrow> Inr (e1\<lparr>user_profiles := Map.empty\<rparr>))"

text \<open>
  \<^verbatim>\<open>sklearn.metrics.pairwise.cosine_similarity(X)\<close>: every row divided by its
  Euclidean norm (a zero row is left as it is), then all pairwise dot products.
\<close>

definition dot :: "real list \<Rightarrow> real list \<Rightarrow> real" where
  "dot xs ys = sum_list (map2 (*) xs ys)"

definition normalize_row :: "real list \<Rightarrow> real list" where
  "normalize_row x = (let n = sqrt (dot x x) in if n = 0 then x else map (\<lambda>v. v / n) x)"

definition cosine_similarity :: "real list list \<Rightarrow> real list list" where
  "cosine_similarity X =
     (let Xn = map normalize_row X in map (\<lambda>x. map (\<lambda>y. dot x y) Xn) Xn)"

definition compute_similarity_matrix :: "engine \<Rightarrow> real list list" where
  "compute_similarity_matrix e =
     (case tfidf_matrix e of
        None \<Rightarrow> []
      | Some m \<Rightarrow> (if length m = 0 then [] else cosine_similarity m))"

text \<open>The loop of \<^verbatim>\<open>calculate_content_similarity\<close> over \<^verbatim>\<open>target_books\<close>.\<close>

fun similarity_loop ::
  "int list \<Rightarrow> real list list \<Rightarrow> int \<Rightarrow> int list \<Rightarrow> (int \<times> real) list
     \<Rightarrow> error + (int \<times> real) list" where
  "similarity_loop ids sm book_id [] similarities = Inr similarities"
| "similarity_loop ids sm book_id (target_id # ts) similarities =
     (if target_id \<in> set ids \<and> target_id \<noteq> book_id then
        (case mat_get sm (index_of book_id ids) (index_of target_id ids) of
           Inl err \<Rightarrow> Inl err
         | Inr v \<Rightarrow> similarity_loop ids sm book_id ts (dict_set target_id v similarities))
      else similarity_loop ids sm book_id ts similarities)"

definition calculate_content_similarity ::
  "engine \<Rightarrow> int \<Rightarrow> int list \<Rightarrow> error + (int \<times> real) list" where
  "calculate_content_similarity e book_id target_books =
     (if book_id \<notin> set (book_ids e) then Inr []
      else let similarity_matrix = compute_similarity_matrix e
           in if length similarity_matrix = 0 then Inr []
              else similarity_loop (book_ids e) similarity_matrix book_id target_books [])"

subsection \<open>Double precision\<close>

text \<open>
  The numbers of the program are IEEE 754 binary64 floats, and every arithmetic operation
  returns the double nearest to the exact result, a tie going to the even significand.
  \<open>fl x\<close> is that double for a real \<open>x\<close> in the normal range (no overflow, no
  subnormal): \<open>x\<close> rounded to 53 significant bits at its binary exponent.
\<close>

definition rne :: "real \<Rightarrow> int" where
  "rne y = (let f = \<lfloor>y\<rfloor>; d = y - of_int f
            in if d < 1/2 then f else if 1/2 < d then f + 1
               else if even f then f else f + 1)"

definition pow2 :: "int \<Rightarrow> real" where
  "pow2 k = (if 0 \<le> k then 2 ^ nat k else 1 / 2 ^ nat (- k))"

definition fl :: "real \<Rightarrow> real" where
  "fl x = (if x = 0 then 0
           else let e = \<lfloor>log 2 \<bar>x\<bar>\<rfloor> - 52 in of_int (rne (x / pow2 e)) * pow2 e)"

text \<open>
  \<^verbatim>\<open>cosine_similarity(X)\<close> in doubles, on the sparse matrix the vectorizer returns:
  the squares of a row are added from left to right, every entry is divided by the square
  root of the sum (a zero row is left as it is), and the products of two normalised rows
  are added from left to right.
\<close>

definition fl_dot :: "real list \<Rightarrow> real list \<Rightarrow> real" where
  "fl_dot xs ys = foldl (\<lambda>acc xy. fl (acc + fl (fst xy * snd xy))) 0 (zip xs ys)"

definition fl_normalize_row :: "real list \<Rightarrow> real list" where
  "fl_normalize_row x =
     (let s = fl_dot x x in if s = 0 then x else map (\<lambda>v. fl (v / fl (sqrt s))) x)"

definition fl_cosine_similarity :: "real list list \<Rightarrow> real list list" where
  "fl_cosine_similarity X =
     (let Xn = map fl_normalize_row X in map (\<lambda>x. map (\<lambda>y. fl_dot x y) Xn) Xn)"

text \<open>
  \<^verbatim>\<open>compute_similarity_matrix\<close> and \<^verbatim>\<open>calculate_content_similarity\<close> with
  the similarity matrix computed in doubles.
\<close>

definition compute_similarity_matrix_fl :: "engine \<Rightarrow> real list list" where
  "compute_similarity_matrix_fl e =
     (case tfidf_matrix e of
        None \<Rightarrow> []
      | Some m \<Rightarrow> (if length m = 0 then [] else fl_cosine_similarity m))"

definition calculate_content_similarity_fl ::
  "engine \<Rightarrow> int \<Rightarrow> int list \<Rightarrow> error + (int \<times> real) list" where
  "calculate_content_similarity_fl e book_id target_books =
     (if book_id \<notin> set (book_ids e) then Inr []
      else let similarity_matrix = compute_similarity_matrix_fl e
           in if length similarity_matrix = 0 then Inr []
              else similarity_loop (book_ids e) similarity_matrix book_id target_books [])"

section \<open>User profile\<close>

text \<open>
  \<^verbatim>\<open>interaction_type\<close> is a database enumeration of these four values, so the
  default \<open>1.0\<close> of \<^verbatim>\<open>interaction_weights.get\<close> is never taken.
\<close>

fun interaction_weights :: "interaction_type \<Rightarrow> real" where
  "interaction_weights View = 1"
| "interaction_weights Like = 2"
| "interaction_weights Request = 3"
| "interaction_weights Search = 1/2"

fun accumulate ::
  "database \<Rightarrow> user_interaction list \<Rightarrow> (string \<times> real) list \<times> (string \<times> real) list
     \<Rightarrow> (string \<times> real) list \<times> (string \<times> real) list" where
  "accumulate db [] acc = acc"
| "accumulate db (i # is) (category_scores, author_scores) =
     (case book_get db (ui_book_id i) of
        None \<Rightarrow> accumulate db is (category_scores, author_scores)
      | Some b \<Rightarrow>
          (let weight = interaction_weights (interaction_type i)
           in accumulate db is
                (dict_add (category b) weight category_scores,
                 dict_add (author b) weight author_scores)))"

definition normalize_scores :: "(string \<times> real) list \<Rightarrow> (string \<times> real) list" where
  "normalize_scores scores =
     (let s = sum_list (map snd scores); total = (if s = 0 then 1 else s)
      in map (\<lambda>(k, score). (k, score / total)) scores)"

text \<open>The empty \<^verbatim>\<open>dict\<close> returned for a user without interactions is \<open>None\<close>.\<close>

definition build_user_profile :: "database \<Rightarrow> int \<Rightarrow> user_profile option" where
  "build_user_profile db user_id =
     (let interactions = interactions_of db user_id
      in if interactions = [] then None
         else case accumulate db interactions ([], []) of
                (category_scores, author_scores) \<Rightarrow>
                  Some \<lparr>categories = normalize_scores category_scores,
                        authors = normalize_scores author_scores,
                        interaction_count = length interactions\<rparr>)"

section \<open>Recommendations\<close>

definition liked_interactions :: "database \<Rightarrow> int \<Rightarrow> user_interaction list" where
  "liked_interactions db user_id =
     filter (\<lambda>i. ui_user_id i = user_id \<and> interaction_type i \<in> {Like, Request})
       (user_interactions db)"

definition calculate_user_content_similarity ::
  "engine \<Rightarrow> database \<Rightarrow> int \<Rightarrow> int \<Rightarrow> error + real" where
  "calculate_user_content_similarity e db user_id book_id =
     (let liked = liked_interactions db user_id
      in if liked = [] then Inr 0
         else case calculate_content_similarity e book_id (map ui_book_id liked) of
                Inl err \<Rightarrow> Inl err
              | Inr similarities \<Rightarrow>
                  (if similarities = [] then Inr 0
                   else Inr (sum_list (map snd similarities) / real (length similarities))))"

definition join_and :: "string list \<Rightarrow> string" where
  "join_and rs = (case rs of [] \<Rightarrow> [] | r # rest \<Rightarrow> r @ concat (map (\<lambda>x. '' and '' @ x) rest))"

definition generate_reason :: "user_profile \<Rightarrow> book \<Rightarrow> string" where
  "generate_reason user_profile b =
     (let category_pref = dict_get0 (categories user_profile) (category b);
          r1 = (if 1/10 < category_pref
                then [''you've shown interest in '' @ category b @ '' books''] else []);
          author_pref = dict_get0 (authors user_profile) (author b);
          r2 = (if 1/10 < author_pref
                then r1 @ [''you've liked books by '' @ author b] else r1);
          reasons = (if r2 = [] then [''based on your reading preferences''] else r2)
      in ''Recommended because '' @ join_and reasons)"

text \<open>
  \<^verbatim>\<open>_get_popular_books\<close>: the available books, each with the number of interaction
  rows that reference it, by that number descending, cut by \<^verbatim>\<open>LIMIT\<close>. The
  query has no second \<^verbatim>\<open>ORDER BY\<close> key, so SQL leaves the order of equal counts
  open; the model takes the groups of \<^verbatim>\<open>GROUP BY Book.id\<close> in ascending id
  and keeps that order among equal counts.
\<close>

definition interaction_total :: "database \<Rightarrow> book \<Rightarrow> nat" where
  "interaction_total db b = length (filter (\<lambda>i. ui_book_id i = bk_id b) (user_interactions db))"

definition popular_entry :: "book \<times> nat \<Rightarrow> recommendation" where
  "popular_entry bc = \<lparr>rec_book = fst bc, relevance_score = 1/2,
     recommendation_reason = ''Popular book with '' @ str_nat (snd bc) @ '' interactions''\<rparr>"

definition get_popular_books :: "database \<Rightarrow> int \<Rightarrow> error + recommendation list" where
  "get_popular_books db num_books =
     (case sql_limit (dialect db) num_books
             (sorted_desc snd
                (map (\<lambda>b. (b, interaction_total db b)) (sort_key bk_id (available_books db)))) of
        Inl err \<Rightarrow> Inl err
      | Inr popular_books \<Rightarrow> Inr (map popular_entry popular_books))"

text \<open>The score of one candidate, lines 265 to 277 of the source.\<close>

definition book_score :: "engine \<Rightarrow> database \<Rightarrow> user_profile \<Rightarrow> int \<Rightarrow> book \<Rightarrow> error + real" where
  "book_score e db user_profile user_id b =
     (case calculate_user_content_similarity e db user_id (bk_id b) of
        Inl err \<Rightarrow> Inl err
      | Inr content_score \<Rightarrow>
          Inr (0 + dict_get0 (categories user_profile) (category b) * (4/10)
                 + dict_get0 (authors user_profile) (author b) * (3/10)
                 + content_score * (3/10)))"

fun score_books ::
  "engine \<Rightarrow> database \<Rightarrow> user_profile \<Rightarrow> int \<Rightarrow> book list \<Rightarrow> (int \<times> real) list
     \<Rightarrow> error + (int \<times> real) list" where
  "score_books e db p u [] book_scores = Inr book_scores"
| "score_books e db p u (b # bs) book_scores =
     (case book_score e db p u b of
        Inl err \<Rightarrow> Inl err
      | Inr score \<Rightarrow> score_books e db p u bs (dict_set (bk_id b) score book_scores))"

fun format_recommendations ::
  "database \<Rightarrow> user_profile \<Rightarrow> (int \<times> real) list \<Rightarrow> int list \<Rightarrow> error + recommendation list" where
  "format_recommendations db p book_scores [] = Inr []"
| "format_recommendations db p book_scores (book_id # ids) =
     (case book_get db book_id of
        None \<Rightarrow> format_recommendations db p book_scores ids
      | Some b \<Rightarrow>
          (case map_of book_scores book_id of
             None \<Rightarrow> Inl KeyError
           | Some score \<Rightarrow>
               (case format_recommendations db p book_scores ids of
                  Inl err \<Rightarrow> Inl err
                | Inr rest \<Rightarrow>
                    Inr (\<lparr>rec_book = b, relevance_score = py_round3 score,
                          recommendation_reason = generate_reason p b\<rparr> # rest))))"

text \<open>The candidates of the personalised path, lines 248 to 256.\<close>

definition candidate_books :: "database \<Rightarrow> int \<Rightarrow> book list" where
  "candidate_books db user_id =
     (let interacted_book_ids = set (map ui_book_id (interactions_of db user_id))
      in filter (\<lambda>b. available b \<and> bk_user_id b \<noteq> user_id \<and> bk_id b \<notin> interacted_book_ids)
           (books db))"

text \<open>The personalised path, lines 247 to 296.\<close>

definition personalized ::
  "engine \<Rightarrow> database \<Rightarrow> user_profile \<Rightarrow> int \<Rightarrow> int \<Rightarrow> error + recommendation list" where
  "personalized e db user_profile user_id num_recommendations =
     (let bs = candidate_books db user_id
      in if bs = [] then Inr []
         else case score_books e db user_profile user_id bs [] of
                Inl err \<Rightarrow> Inl err
              | Inr book_scores \<Rightarrow>
                  format_recommendations db user_profile book_scores
                    (map fst (slice_to num_recommendations (sorted_desc snd book_scores))))"

text \<open>The test of line 243: \<^verbatim>\<open>not user_profile or not self.book_ids\<close>.\<close>

definition use_fallback :: "user_profile option \<Rightarrow> engine \<Rightarrow> bool" where
  "use_fallback user_profile e = (user_profile = None \<or> book_ids e = [])"

definition generate_recommendations ::
  "sklearn \<Rightarrow> engine \<Rightarrow> database \<Rightarrow> int \<Rightarrow> int \<Rightarrow> error + recommendation list \<times> engine" where
  "generate_recommendations sk e db user_id num_recommendations =
     (case fit_tfidf_model sk e db of
        Inl err \<Rightarrow> Inl err
      | Inr e1 \<Rightarrow>
          (let user_profile = build_user_profile db user_id
           in case (if use_fallback user_profile e1
                    then get_popular_books db num_recommendations
                    else case user_profile of
                           None \<Rightarrow> get_popular_books db num_recommendations
                         | Some p \<Rightarrow> personalized e1 db p user_id num_recommendations) of
                Inl err \<Rightarrow> Inl err
              | Inr recommendations \<Rightarrow> Inr (recommendations, e1)))"

section \<open>Example data\<close>

text \<open>A stand-in for the vectorizer that gives every document the same one-term row.\<close>

definition sk_unit :: sklearn where
  "sk_unit = (\<lambda>p corpus. Some (\<lambda>doc. [1]))"

definition ex_book :: "int \<Rightarrow> int \<Rightarrow> string \<Rightarrow> string \<Rightarrow> bool \<Rightarrow> book" where
  "ex_book i u a c av = \<lparr>bk_id = i, bk_user_id = u, title = ''T'', author = a, category = c,
     condition = ''good'', description = None, available = av\<rparr>"

definition ex_interaction :: "int \<Rightarrow> int \<Rightarrow> int \<Rightarrow> interaction_type \<Rightarrow> user_interaction" where
  "ex_interaction i u b t = \<lparr>ui_id = i, ui_user_id = u, ui_book_id = b, interaction_type = t\<rparr>"

text \<open>User 1 owns the only book and has no interactions.\<close>

definition db_own :: database where
  "db_own = \<lparr>books = [ex_book 1 1 ''H'' ''Fiction'' True], user_interactions = [],
     dialect = MySQL\<rparr>"

text \<open>
  User 1 liked book 1; books 3 and 2, in this table order, are the candidates and score
  the same.
\<close>

definition db_tie :: database where
  "db_tie = \<lparr>books = [ex_book 1 2 ''H'' ''Fiction'' True, ex_book 3 2 ''A'' ''Fiction'' True,
       ex_book 2 2 ''C'' ''Fiction'' True],
     user_interactions = [ex_interaction 1 1 1 Like], dialect = MySQL\<rparr>"


text \<open>
  Three available books with 2, 1 and 0 interactions, all by user 3; user 1 owns book 1
  and has no interactions.
\<close>

definition db_scenario :: database where
  "db_scenario = \<lparr>books = [ex_book 1 1 ''H'' ''Fiction'' True, ex_book 2 2 ''A'' ''Science'' True,
       ex_book 3 2 ''C'' ''History'' True],
     user_interactions = [ex_interaction 1 3 1 View, ex_interaction 2 3 1 Like,
       ex_interaction 3 3 2 View], dialect = MySQL\<rparr>"

definition eng_scenario :: engine where
  "eng_scenario = init_engine\<lparr>book_ids := [1, 2, 3],
     book_features := [1 \<mapsto> feature_of (ex_book 1 1 ''H'' ''Fiction'' True),
       2 \<mapsto> feature_of (ex_book 2 2 ''A'' ''Science'' True),
       3 \<mapsto> feature_of (ex_book 3 2 ''C'' ''History'' True)],
     tfidf_matrix := Some [[1], [1], [1]]\<rparr>"

text \<open>No book is available.\<close>

definition db_unavailable :: database where
  "db_unavailable = \<lparr>books = [ex_book 1 2 ''H'' ''Fiction'' False], user_interactions = [],
     dialect = MySQL\<rparr>"

text \<open>The only interaction of user 1 references book 99, which does not exist.\<close>

definition db_dangling_empty :: database where
  "db_dangling_empty = \<lparr>books = [], user_interactions = [ex_interaction 1 1 99 View],
     dialect = MySQL\<rparr>"

definition db_dangling :: database where
  "db_dangling = \<lparr>books = [ex_book 5 2 ''H'' ''Fiction'' True],
     user_interactions = [ex_interaction 1 1 99 View], dialect = MySQL\<rparr>"

definition eng_two :: engine where
  "eng_two = \<lparr>vectorizer = default_params, tfidf_matrix = Some [[1], [1]], book_ids = [1, 2],
     book_features = Map.empty, user_profiles = Map.empty\<rparr>"

text \<open>What fitting leaves in a fresh engine on \<open>db_tie\<close> and on \<open>db_tie_rev\<close>.\<close>

definition eng_tie :: engine where
  "eng_tie = init_engine\<lparr>book_ids := [1, 3, 2],
     book_features := [1 \<mapsto> feature_of (ex_book 1 2 ''H'' ''Fiction'' True),
       3 \<mapsto> feature_of (ex_book 3 2 ''A'' ''Fiction'' True),
       2 \<mapsto> feature_of (ex_book 2 2 ''C'' ''Fiction'' True)],
     tfidf_matrix := Some [[1], [1], [1]]\<rparr>"


definition rec_fiction :: "book \<Rightarrow> recommendation" where
  "rec_fiction b = \<lparr>rec_book = b, relevance_score = 7/10,
     recommendation_reason = ''Recommended because you've shown interest in Fiction books''\<rparr>"

text \<open>Profiles and engines of the examples.\<close>

definition profile_tie :: user_profile where
  "profile_tie = \<lparr>categories = [(''Fiction'', 1)], authors = [(''H'', 1)], interaction_count = 1\<rparr>"

definition eng_empty :: engine where
  "eng_empty = init_engine\<lparr>book_ids := [], book_features := Map.empty, tfidf_matrix := Some []\<rparr>"

definition profile_dangling :: user_profile where
  "profile_dangling = \<lparr>categories = [], authors = [], interaction_count = 1\<rparr>"

definition eng_dangling :: engine where
  "eng_dangling = init_engine\<lparr>book_ids := [5],
     book_features := [5 \<mapsto> feature_of (ex_book 5 2 ''H'' ''Fiction'' True)],
     tfidf_matrix := Some [[1]], vectorizer := single_params\<rparr>"

text \<open>
  Two available books with the same text, \<^verbatim>\<open>dune herbert x\<close> after preprocessing. The
  vectorizer finds the three terms \<^verbatim>\<open>dune\<close>, \<^verbatim>\<open>herbert\<close> and
  \<^verbatim>\<open>dune herbert\<close> in both, each with weight \<open>w3\<close>, the double
  \<^verbatim>\<open>0.5773502691896258\<close> that \<^verbatim>\<open>1.0 / sqrt(3.0)\<close> returns; \<open>sk_w3\<close> stands for
  the vectorizer on this corpus.
\<close>

definition w3 :: real where
  "w3 = 5200308914369309 / 9007199254740992"

definition sk_w3 :: sklearn where
  "sk_w3 = (\<lambda>p corpus. Some (\<lambda>doc. [w3, w3, w3]))"

definition dune :: "int \<Rightarrow> book" where
  "dune i = \<lparr>bk_id = i, bk_user_id = 2, title = ''Dune'', author = ''Herbert'', category = ''X'',
     condition = ''good'', description = None, available = True\<rparr>"

definition db_equal :: database where
  "db_equal = \<lparr>books = [dune 1, dune 2], user_interactions = [], dialect = MySQL\<rparr>"

definition eng_equal :: engine where
  "eng_equal = init_engine\<lparr>book_ids := [1, 2],
     book_features := [1 \<mapsto> feature_of (dune 1), 2 \<mapsto> feature_of (dune 2)],
     tfidf_matrix := Some [[w3, w3, w3], [w3, w3, w3]]\<rparr>"

section \<open>Reference definitions\<close>

text \<open>
  An engine is fitted when its matrix has one row for every entry of \<^verbatim>\<open>book_ids\<close>,
  as \<^verbatim>\<open>fit_tfidf_model\<close> leaves it.
\<close>

definition fitted :: "engine \<Rightarrow> bool" where
  "fitted e = (case tfidf_matrix e of None \<Rightarrow> False | Some m \<Rightarrow> length m = length (book_ids e))"

text \<open>The tf-idf weights of a fitted model are non-negative.\<close>

definition nonneg_matrix :: "engine \<Rightarrow> bool" where
  "nonneg_matrix e =
     (case tfidf_matrix e of None \<Rightarrow> True | Some m \<Rightarrow> list_all (list_all (\<lambda>v. 0 \<le> v)) m)"

text \<open>The cosine of two rows, as the specification's glossary defines it.\<close>

definition cosine :: "real list \<Rightarrow> real list \<Rightarrow> real" where
  "cosine x y = dot x y / (sqrt (dot x x) * sqrt (dot y y))"

definition book_row :: "engine \<Rightarrow> int \<Rightarrow> real list" where
  "book_row e a = (case tfidf_matrix e of None \<Rightarrow> [] | Some m \<Rightarrow> m ! index_of a (book_ids e))"

text \<open>
  The specification's score, written from its words alone. The profile's weight of a
  category or author is the entry of the weight map, \<open>0\<close> when there is none. The books the
  user marked like or request are read off the interaction table. The mean content
  similarity of a candidate \<open>x\<close> is the arithmetic mean of the cosines between the row of
  \<open>x\<close> and the rows of those books that are in the corpus and are not \<open>x\<close>, each counted
  once, or \<open>0\<close> when there is none or \<open>x\<close> is not in the corpus.
\<close>

definition spec_weight :: "(string \<times> real) list \<Rightarrow> string \<Rightarrow> real" where
  "spec_weight weights k = (case map_of weights k of None \<Rightarrow> 0 | Some w \<Rightarrow> w)"

definition spec_liked_books :: "database \<Rightarrow> int \<Rightarrow> int list" where
  "spec_liked_books db u =
     remdups (map ui_book_id
       (filter (\<lambda>i. ui_user_id i = u \<and> (interaction_type i = Like \<or> interaction_type i = Request))
          (user_interactions db)))"

definition spec_row :: "engine \<Rightarrow> int \<Rightarrow> real list" where
  "spec_row e t =
     (case tfidf_matrix e of
        None \<Rightarrow> []
      | Some m \<Rightarrow> (case map_of (zip (book_ids e) m) t of None \<Rightarrow> [] | Some row \<Rightarrow> row))"

definition liked_in_corpus :: "engine \<Rightarrow> database \<Rightarrow> int \<Rightarrow> int \<Rightarrow> int list" where
  "liked_in_corpus e db u x =
     filter (\<lambda>t. t \<in> set (book_ids e) \<and> t \<noteq> x) (spec_liked_books db u)"

definition mean_liked_similarity :: "engine \<Rightarrow> database \<Rightarrow> int \<Rightarrow> int \<Rightarrow> real" where
  "mean_liked_similarity e db u x =
     (if x \<notin> set (book_ids e) \<or> liked_in_corpus e db u x = [] then 0
      else sum_list (map (\<lambda>t. cosine (spec_row e x) (spec_row e t)) (liked_in_corpus e db u x))
             / real (length (liked_in_corpus e db u x)))"

definition spec_score :: "engine \<Rightarrow> database \<Rightarrow> user_profile \<Rightarrow> int \<Rightarrow> book \<Rightarrow> real" where
  "spec_score e db p u b =
     4/10 * spec_weight (categories p) (category b)
     + 3/10 * spec_weight (authors p) (author b)
     + 3/10 * mean_liked_similarity e db u (bk_id b)"

text \<open>The score the loop of the personalised path stores for a book.\<close>

definition score_of :: "engine \<Rightarrow> database \<Rightarrow> user_profile \<Rightarrow> int \<Rightarrow> book \<Rightarrow> real" where
  "score_of e db p u b = (case book_score e db p u b of Inl err \<Rightarrow> 0 | Inr s \<Rightarrow> s)"

text \<open>The entry the source builds for a book of the ranking.\<close>

definition make_entry :: "engine \<Rightarrow> database \<Rightarrow> user_profile \<Rightarrow> int \<Rightarrow> book \<Rightarrow> recommendation" where
  "make_entry e db p u b = \<lparr>rec_book = b, relevance_score = py_round3 (score_of e db p u b),
     recommendation_reason = generate_reason p b\<rparr>"

definition unit_interval :: "real \<Rightarrow> bool" where
  "unit_interval v = (0 \<le> v \<and> v \<le> 1)"

section \<open>Dictionaries and the similarity loop\<close>

lemma in_keys: "(k, v) \<in> set d \<Longrightarrow> k \<in> fst ` set d"
  by force

lemma map_fst_dict_set:
  "map fst (dict_set k v d) = (if k \<in> set (map fst d) then map fst d else map fst d @ [k])"
  by (induction d) (auto dest: in_keys)

lemma keys_dict_set: "fst ` set (dict_set k v d) = insert k (fst ` set d)"
  using map_fst_dict_set [of k v d] by (cases "k \<in> set (map fst d)")
    (auto simp flip: set_map)

lemma similarity_loop_keys:
  "similarity_loop ids sm b ts acc = Inr d \<Longrightarrow>
     fst ` set d = fst ` set acc \<union> {t \<in> set ts. t \<in> set ids \<and> t \<noteq> b}"
proof (induction ts arbitrary: acc)
  case Nil
  then show ?case by simp
next
  case (Cons t ts)
  show ?case
  proof (cases "t \<in> set ids \<and> t \<noteq> b")
    case True
    with Cons.prems obtain v where
      run: "similarity_loop ids sm b ts (dict_set t v acc) = Inr d"
      by (auto split: sum.splits)
    from Cons.IH [OF run] True show ?thesis
      by (auto simp: keys_dict_set)
  next
    case False
    with Cons.prems have "similarity_loop ids sm b ts acc = Inr d"
      by auto
    from Cons.IH [OF this] False show ?thesis by auto
  qed
qed

section \<open>Self-exclusion\<close>

text \<open>
  Claim C7. Whatever the engine holds and whatever the candidate list is, the mapping
  returned by \<^verbatim>\<open>calculate_content_similarity\<close> for reference book \<open>x\<close> has no key
  \<open>x\<close>: the reference book's similarity to itself is never emitted.
\<close>

theorem C7_self_excluded:
  "calculate_content_similarity e x candidates = Inr d \<Longrightarrow> x \<notin> fst ` set d"
  unfolding calculate_content_similarity_def Let_def
  by (auto split: if_splits dest!: similarity_loop_keys)

theorem C7_self_excluded_witness:
  "calculate_content_similarity eng_two 1 [1, 2] = Inr [(2, 1)]
   \<and> (1::int) \<notin> fst ` set [(2, 1::real)]"
proof -
  have run: "calculate_content_similarity eng_two 1 [1, 2] = Inr [(2, 1)]"
    by (simp add: calculate_content_similarity_def eng_two_def compute_similarity_matrix_def
        cosine_similarity_def normalize_row_def dot_def mat_get_def)
  from C7_self_excluded [OF run] run show ?thesis by simp
qed

section \<open>The empty corpus\<close>

text \<open>
  Claim C9, as stated, fails for a negative count on MySQL: with no available book the
  call goes through \<^verbatim>\<open>_get_popular_books\<close>, whose \<^verbatim>\<open>LIMIT -1\<close> the
  database rejects, so the call raises instead of returning the empty list.
\<close>

theorem C9_negative_count_counterexample:
  "available_books db_unavailable = []
   \<and> generate_recommendations sk_unit init_engine db_unavailable 1 (- 1) = Inl ProgrammingError"
  by (simp add: generate_recommendations_def fit_tfidf_model_def build_corpus_def
      available_books_def db_unavailable_def ex_book_def build_user_profile_def
      interactions_of_def use_fallback_def get_popular_books_def sql_limit_def)

text \<open>
  Claim C9, amended. When no book is available, fitting the model and
  \<^verbatim>\<open>update_model\<close> return normally with an empty matrix, every similarity query on
  the fitted engine is the empty mapping, and \<^verbatim>\<open>generate_recommendations\<close> returns
  the empty list for every non-negative count, and on SQLite for every count.
\<close>

theorem C9_empty_corpus:
  assumes "available_books db = []"
  shows "(let e1 = e\<lparr>book_ids := [], book_features := Map.empty, tfidf_matrix := Some []\<rparr>
          in fit_tfidf_model sk e db = Inr e1
           \<and> update_model sk e db = Inr (e1\<lparr>user_profiles := Map.empty\<rparr>)
           \<and> calculate_content_similarity e1 x candidates = Inr []
           \<and> calculate_content_similarity (e1\<lparr>user_profiles := Map.empty\<rparr>) x candidates = Inr []
           \<and> (0 \<le> n \<or> dialect db = SQLite \<longrightarrow>
                generate_recommendations sk e db u n = Inr ([], e1)))"
proof -
  have fit: "fit_tfidf_model sk e db
      = Inr (e\<lparr>book_ids := [], book_features := Map.empty, tfidf_matrix := Some []\<rparr>)"
    using assms by (simp add: fit_tfidf_model_def build_corpus_def)
  have pop: "0 \<le> n \<or> dialect db = SQLite \<Longrightarrow> get_popular_books db n = Inr []"
    using assms by (auto simp: get_popular_books_def sql_limit_def sorted_desc_def)
  show ?thesis
    using fit pop
    by (auto simp: Let_def update_model_def calculate_content_similarity_def
        generate_recommendations_def use_fallback_def)
qed

theorem C9_empty_corpus_witness:
  "available_books db_unavailable = []
   \<and> fit_tfidf_model sk_unit init_engine db_unavailable
       = Inr (init_engine\<lparr>book_ids := [], book_features := Map.empty, tfidf_matrix := Some []\<rparr>)
   \<and> calculate_content_similarity
        (init_engine\<lparr>book_ids := [], book_features := Map.empty, tfidf_matrix := Some []\<rparr>)
        1 [1] = Inr []
   \<and> generate_recommendations sk_unit init_engine db_unavailable 1 5
       = Inr ([], init_engine\<lparr>book_ids := [], book_features := Map.empty,
                tfidf_matrix := Some []\<rparr>)"
proof -
  have h: "available_books db_unavailable = []"
    by (simp add: available_books_def db_unavailable_def ex_book_def)
  from C9_empty_corpus [OF h, where e = init_engine and sk = sk_unit and x = 1
      and candidates = "[1]" and n = 5 and u = 1]
  show ?thesis using h by (simp add: Let_def)
qed

section \<open>Fitting and the absence of index errors\<close>

lemma fit_book_ids:
  "fit_tfidf_model sk e db = Inr e1 \<Longrightarrow> book_ids e1 = map bk_id (available_books db)"
  by (auto simp: fit_tfidf_model_def build_corpus_def Let_def split: if_splits option.splits)

lemma fit_matrix:
  "fit_tfidf_model sk e db = Inr e1 \<Longrightarrow>
     \<exists>m. tfidf_matrix e1 = Some m \<and> length m = length (book_ids e1)"
  by (auto simp: fit_tfidf_model_def build_corpus_def Let_def split: if_splits option.splits)


lemma index_of_less: "x \<in> set xs \<Longrightarrow> index_of x xs < length xs"
  by (induction xs) auto

lemma nth_index_of: "x \<in> set xs \<Longrightarrow> xs ! index_of x xs = x"
  by (induction xs) auto

lemma mat_get_cosine:
  "i < length m \<Longrightarrow> j < length m \<Longrightarrow>
     mat_get (cosine_similarity m) i j = Inr (dot (normalize_row (m ! i)) (normalize_row (m ! j)))"
  by (simp add: mat_get_def cosine_similarity_def Let_def)

lemma similarity_loop_total:
  assumes "\<And>t. t \<in> set ids \<Longrightarrow> \<exists>v. mat_get sm (index_of b ids) (index_of t ids) = Inr v"
  shows "\<exists>d. similarity_loop ids sm b ts acc = Inr d"
proof (induction ts arbitrary: acc)
  case Nil
  show ?case by simp
next
  case (Cons t ts)
  show ?case
  proof (cases "t \<in> set ids \<and> t \<noteq> b")
    case True
    then obtain v where "mat_get sm (index_of b ids) (index_of t ids) = Inr v"
      using assms by blast
    with True Cons.IH [of "dict_set t v acc"] show ?thesis by simp
  next
    case False
    with Cons.IH [of acc] show ?thesis by auto
  qed
qed

lemma fit_fitted: "fit_tfidf_model sk e db = Inr e1 \<Longrightarrow> fitted e1"
  using fit_matrix [of sk e db e1] by (auto simp: fitted_def)

lemma content_similarity_total:
  assumes "fitted e"
  shows "\<exists>d. calculate_content_similarity e b ts = Inr d"
proof (cases "b \<in> set (book_ids e)")
  case False
  then show ?thesis by (simp add: calculate_content_similarity_def)
next
  case True
  from assms obtain m where m: "tfidf_matrix e = Some m" "length m = length (book_ids e)"
    by (auto simp: fitted_def split: option.splits)
  from True have ne: "length m \<noteq> 0" using m by auto
  have sm: "compute_similarity_matrix e = cosine_similarity m"
    using m ne by (simp add: compute_similarity_matrix_def)
  have "\<exists>d. similarity_loop (book_ids e) (cosine_similarity m) b ts [] = Inr d"
  proof (rule similarity_loop_total)
    fix t assume "t \<in> set (book_ids e)"
    then show "\<exists>v. mat_get (cosine_similarity m) (index_of b (book_ids e))
        (index_of t (book_ids e)) = Inr v"
      using True m by (simp add: mat_get_cosine index_of_less)
  qed
  then show ?thesis
    using True sm by (auto simp: calculate_content_similarity_def Let_def)
qed

lemma book_score_total:
  assumes "fitted e"
  shows "\<exists>s. book_score e db p u b = Inr s"
  using content_similarity_total [OF assms]
  by (auto simp: book_score_def calculate_user_content_similarity_def Let_def split: sum.splits)
    (metis Inl_Inr_False)+

lemma score_books_total:
  assumes "fitted e"
  shows "\<exists>d. score_books e db p u bs acc = Inr d"
proof (induction bs arbitrary: acc)
  case Nil
  show ?case by simp
next
  case (Cons b bs)
  from book_score_total [OF assms] obtain s where "book_score e db p u b = Inr s" by blast
  with Cons.IH show ?case by simp
qed

section \<open>Non-positive counts\<close>

lemmas eval_defs = generate_recommendations_def fit_tfidf_model_def build_corpus_def
  available_books_def ex_book_def ex_interaction_def sk_unit_def init_engine_def
  build_user_profile_def interactions_of_def use_fallback_def get_popular_books_def sql_limit_def
  sorted_desc_def interaction_total_def personalized_def candidate_books_def book_score_def
  calculate_user_content_similarity_def liked_interactions_def calculate_content_similarity_def
  compute_similarity_matrix_def cosine_similarity_def normalize_row_def dot_def mat_get_def
  slice_to_def book_get_def normalize_scores_def dict_get0_def default_params_def

text \<open>
  Claim C2, as stated, fails: for user 1 of \<open>db_tie\<close>, who has a profile and two
  candidates, the count \<open>-1\<close> returns one recommendation, since the slice
  \<^verbatim>\<open>sorted_books[:-1]\<close> drops only the last candidate.
\<close>

theorem C2_negative_count_counterexample:
  "generate_recommendations sk_unit init_engine db_tie 1 (- 1)
     = Inr ([rec_fiction (ex_book 3 2 ''A'' ''Fiction'' True)], eng_tie)"
  apply (simp add: eval_defs db_tie_def eng_tie_def rec_fiction_def)
  apply (simp add: py_round3_def generate_reason_def eval_defs join_and_def)
  done

text \<open>
  Claim C2, amended. For the count \<open>0\<close>, \<^verbatim>\<open>generate_recommendations\<close> returns the
  empty list for every user, on both paths, whenever fitting the model succeeds; the only
  failure is the one the fit itself raises. Nothing is said of a negative count.
\<close>

theorem C2_zero_count_empty:
  "generate_recommendations sk e db u 0
     = (case fit_tfidf_model sk e db of Inl err \<Rightarrow> Inl err | Inr e1 \<Rightarrow> Inr ([], e1))"
proof (cases "fit_tfidf_model sk e db")
  case (Inl err)
  then show ?thesis by (simp add: generate_recommendations_def)
next
  case (Inr e1)
  have pop: "get_popular_books db 0 = Inr []"
    by (simp add: get_popular_books_def sql_limit_def)
  have pers: "personalized e1 db p u 0 = Inr []" for p
    using score_books_total [OF fit_fitted [OF Inr], of db p u "candidate_books db u" "[]"]
    by (auto simp: personalized_def Let_def slice_to_def)
  show ?thesis
    using Inr pop pers
    by (auto simp: generate_recommendations_def Let_def split: option.splits)
qed

theorem C2_zero_count_empty_witness:
  "generate_recommendations sk_unit init_engine db_tie 1 0 = Inr ([], eng_tie)"
  using C2_zero_count_empty [of sk_unit init_engine db_tie 1]
  by (simp add: fit_tfidf_model_def build_corpus_def available_books_def db_tie_def ex_book_def
      sk_unit_def init_engine_def eng_tie_def)

section \<open>Own books on the fallback path\<close>

text \<open>
  Claim C1 fails on the fallback path. User 1 of \<open>db_own\<close> has no interactions and owns
  the only available book; \<^verbatim>\<open>_get_popular_books\<close> takes no user and returns that
  book to its owner.
\<close>

theorem C1_fallback_returns_own_book:
  "generate_recommendations sk_unit init_engine db_own 1 10
     = Inr ([\<lparr>rec_book = ex_book 1 1 ''H'' ''Fiction'' True, relevance_score = 1/2,
              recommendation_reason = ''Popular book with 0 interactions''\<rparr>],
            init_engine\<lparr>book_ids := [1],
              book_features := [1 \<mapsto> feature_of (ex_book 1 1 ''H'' ''Fiction'' True)],
              tfidf_matrix := Some [[1]], vectorizer := single_params\<rparr>)
   \<and> bk_user_id (ex_book 1 1 ''H'' ''Fiction'' True) = 1"
  by (simp add: eval_defs db_own_def popular_entry_def str_nat.simps digit_char_def)

section \<open>Ranking\<close>


lemma sorted_desc_sorted: "sorted_wrt (\<lambda>x y. f y \<le> f x) (sorted_desc f xs)"
proof -
  have "sorted (map f (sort_key f (rev xs)))" by (rule sorted_sort_key)
  then have "sorted_wrt (\<lambda>x y. f x \<le> f y) (sort_key f (rev xs))"
    by (simp add: sorted_wrt_map)
  then show ?thesis
    by (simp add: sorted_desc_def sorted_wrt_rev)
qed

lemma set_sorted_desc: "set (sorted_desc f xs) = set xs"
  by (simp add: sorted_desc_def)

lemma score_books_keys:
  "score_books e db p u bs acc = Inr d \<Longrightarrow> distinct (map bk_id bs) \<Longrightarrow>
     set (map bk_id bs) \<inter> set (map fst acc) = {} \<Longrightarrow>
     map fst d = map fst acc @ map bk_id bs"
proof (induction bs arbitrary: acc)
  case Nil
  then show ?case by simp
next
  case (Cons b bs)
  from Cons.prems(1) obtain s where
    run: "score_books e db p u bs (dict_set (bk_id b) s acc) = Inr d"
    by (auto split: sum.splits)
  have keys: "map fst (dict_set (bk_id b) s acc) = map fst acc @ [bk_id b]"
    using Cons.prems(3) by (simp add: map_fst_dict_set)
  have "map fst d = map fst (dict_set (bk_id b) s acc) @ map bk_id bs"
  proof (rule Cons.IH [OF run])
    show "distinct (map bk_id bs)" using Cons.prems(2) by simp
    show "set (map bk_id bs) \<inter> set (map fst (dict_set (bk_id b) s acc)) = {}"
      using Cons.prems(2,3) unfolding keys by auto
  qed
  then show ?case by (simp add: keys)
qed


section \<open>The popularity fallback\<close>

text \<open>\<open>str_nat\<close> writes a count in decimal, as \<^verbatim>\<open>str\<close> does.\<close>

lemma str_nat_decimal:
  "str_nat 0 = ''0'' \<and> str_nat 7 = ''7'' \<and> str_nat 10 = ''10'' \<and> str_nat 109 = ''109''
   \<and> str_nat 2048 = ''2048''"
  by (simp add: str_nat.simps digit_char_def)

lemma get_popular_books_entries:
  assumes "get_popular_books db n = Inr r"
  shows "\<exists>rows. r = map popular_entry rows
     \<and> set rows \<subseteq> (\<lambda>b. (b, interaction_total db b)) ` set (available_books db)
     \<and> sorted_wrt (\<lambda>x y. snd y \<le> snd x) rows"
proof -
  let ?L = "sorted_desc snd
      (map (\<lambda>b. (b, interaction_total db b)) (sort_key bk_id (available_books db)))"
  from assms obtain rows where lim: "sql_limit (dialect db) n ?L = Inr rows"
    and r: "r = map popular_entry rows"
    by (auto simp: get_popular_books_def split: sum.splits)
  from lim have "rows = take (nat n) ?L \<or> rows = ?L"
    by (auto simp: sql_limit_def split: if_splits dialect.splits)
  then have sub: "set rows \<subseteq> set ?L" and srt: "sorted_wrt (\<lambda>x y. snd y \<le> snd x) rows"
    using sorted_desc_sorted [of snd
        "map (\<lambda>b. (b, interaction_total db b)) (sort_key bk_id (available_books db))"]
    by (auto dest: in_set_takeD intro: sorted_wrt_take)
  from sub have "set rows \<subseteq> (\<lambda>b. (b, interaction_total db b)) ` set (available_books db)"
    by (simp add: set_sorted_desc)
  with r srt show ?thesis by blast
qed

text \<open>
  What the fallback returns for a user without interaction records: the result of
  \<^verbatim>\<open>_get_popular_books\<close> (after a successful fit), which holds available books
  with their total interaction counts non-increasing, every entry with relevance score
  \<open>0.5\<close> and a reason that names the entry's count.
\<close>

lemma cold_start_fallback:
  assumes "interactions_of db u = []"
  shows "generate_recommendations sk e db u n
      = (case fit_tfidf_model sk e db of
           Inl err \<Rightarrow> Inl err
         | Inr e1 \<Rightarrow> (case get_popular_books db n of
                        Inl err \<Rightarrow> Inl err
                      | Inr r \<Rightarrow> Inr (r, e1)))
    \<and> (0 \<le> n \<longrightarrow>
         get_popular_books db n
           = Inr (map popular_entry (take (nat n)
               (sorted_desc snd (map (\<lambda>b. (b, interaction_total db b))
                  (sort_key bk_id (available_books db)))))))
    \<and> (\<forall>r. get_popular_books db n = Inr r \<longrightarrow>
         (\<forall>x \<in> set r. relevance_score x = 1/2
            \<and> recommendation_reason x
                = ''Popular book with '' @ str_nat (interaction_total db (rec_book x))
                    @ '' interactions''
            \<and> rec_book x \<in> set (available_books db))
         \<and> sorted_wrt (\<lambda>x y. interaction_total db (rec_book y)
                               \<le> interaction_total db (rec_book x)) r)"
proof -
  have profile: "build_user_profile db u = None"
    using assms by (simp add: build_user_profile_def)
  have first: "generate_recommendations sk e db u n
      = (case fit_tfidf_model sk e db of
           Inl err \<Rightarrow> Inl err
         | Inr e1 \<Rightarrow> (case get_popular_books db n of
                        Inl err \<Rightarrow> Inl err
                      | Inr r \<Rightarrow> Inr (r, e1)))"
    by (simp add: generate_recommendations_def profile use_fallback_def split: sum.splits)
  have second: "0 \<le> n \<Longrightarrow> get_popular_books db n
           = Inr (map popular_entry (take (nat n)
               (sorted_desc snd (map (\<lambda>b. (b, interaction_total db b))
                  (sort_key bk_id (available_books db))))))"
    by (simp add: get_popular_books_def sql_limit_def)
  have third: "(\<forall>x \<in> set r. relevance_score x = 1/2
            \<and> recommendation_reason x
                = ''Popular book with '' @ str_nat (interaction_total db (rec_book x))
                    @ '' interactions''
            \<and> rec_book x \<in> set (available_books db))
         \<and> sorted_wrt (\<lambda>x y. interaction_total db (rec_book y)
                               \<le> interaction_total db (rec_book x)) r"
    if "get_popular_books db n = Inr r" for r
  proof -
    from get_popular_books_entries [OF that] obtain rows where
      r: "r = map popular_entry rows"
      and sub: "set rows \<subseteq> (\<lambda>b. (b, interaction_total db b)) ` set (available_books db)"
      and srt: "sorted_wrt (\<lambda>x y. snd y \<le> snd x) rows"
      by blast
    have each: "\<forall>x \<in> set r. relevance_score x = 1/2
            \<and> recommendation_reason x
                = ''Popular book with '' @ str_nat (interaction_total db (rec_book x))
                    @ '' interactions''
            \<and> rec_book x \<in> set (available_books db)"
      using sub unfolding r by (auto simp: popular_entry_def)
    have snd_eq: "snd x = interaction_total db (fst x)" if "x \<in> set rows" for x
      using sub that by auto
    have "sorted_wrt (\<lambda>x y. interaction_total db (fst y) \<le> interaction_total db (fst x)) rows"
      by (rule sorted_wrt_mono_rel [OF _ srt]) (simp add: snd_eq)
    then have "sorted_wrt (\<lambda>x y. interaction_total db (rec_book y)
                               \<le> interaction_total db (rec_book x)) r"
      unfolding r by (simp add: sorted_wrt_map popular_entry_def)
    with each show ?thesis by blast
  qed
  from first second third show ?thesis by blast
qed

text \<open>
  Claim C4 fails in what it ranks. User 1 of \<open>db_scenario\<close> has no interactions and owns
  book 1, the book with most interactions; the candidates of user 1 are books 2 and 3.
  The fallback ranks all three available books by interaction count, every entry with
  score \<open>0.5\<close> and the count in its reason, and returns the user's own book first: the same
  missing owner filter as under claim C1.
\<close>

theorem C4_fallback_ranks_own_book:
  "interactions_of db_scenario 1 = []
   \<and> candidate_books db_scenario 1
       = [ex_book 2 2 ''A'' ''Science'' True, ex_book 3 2 ''C'' ''History'' True]
   \<and> generate_recommendations sk_unit init_engine db_scenario 1 3
       = Inr ([\<lparr>rec_book = ex_book 1 1 ''H'' ''Fiction'' True, relevance_score = 1/2,
                recommendation_reason = ''Popular book with 2 interactions''\<rparr>,
               \<lparr>rec_book = ex_book 2 2 ''A'' ''Science'' True, relevance_score = 1/2,
                recommendation_reason = ''Popular book with 1 interactions''\<rparr>,
               \<lparr>rec_book = ex_book 3 2 ''C'' ''History'' True, relevance_score = 1/2,
                recommendation_reason = ''Popular book with 0 interactions''\<rparr>],
              eng_scenario)"
  by (simp add: eval_defs db_scenario_def eng_scenario_def popular_entry_def str_nat.simps
      digit_char_def)

section \<open>Cosine similarity\<close>

lemma dot_Nil [simp]: "dot [] ys = 0" "dot xs [] = 0"
  by (simp_all add: dot_def)

lemma dot_Cons [simp]: "dot (x # xs) (y # ys) = x * y + dot xs ys"
  by (simp add: dot_def)

lemma dot_commute: "dot xs ys = dot ys xs"
  by (induction xs ys rule: list_induct2') (simp_all add: mult.commute)

lemma dot_self_nonneg: "0 \<le> dot xs xs"
  by (induction xs) simp_all

lemma dot_self_zero: "dot xs xs = 0 \<Longrightarrow> dot xs ys = 0"
proof (induction xs ys rule: list_induct2')
  case (4 x xs y ys)
  have "0 \<le> x * x" by simp
  with 4(2) dot_self_nonneg [of xs] have "x * x = 0" "dot xs xs = 0"
    by (simp_all add: add_nonneg_eq_0_iff)
  with 4(1) show ?case by simp
qed simp_all

lemma dot_scale_left: "dot (map (\<lambda>v. v / n) xs) ys = dot xs ys / n"
  by (induction xs ys rule: list_induct2') (simp_all add: add_divide_distrib)

lemma dot_scale_right: "dot xs (map (\<lambda>v. v / n) ys) = dot xs ys / n"
  using dot_scale_left [of n ys xs] by (simp add: dot_commute)

lemma dot_normalize: "dot (normalize_row x) (normalize_row y) = cosine x y"
proof -
  have zx: "cosine x y = 0" "dot x (normalize_row y) = 0" if "dot x x = 0"
    using that dot_self_zero [of x] by (simp_all add: cosine_def)
  have zy: "cosine x y = 0" "dot (normalize_row x) y = 0" if "dot y y = 0"
  proof -
    have "dot z y = 0" for z
      using dot_self_zero [OF that, of z] by (simp only: dot_commute [of z y])
    then show "cosine x y = 0" "dot (normalize_row x) y = 0"
      by (simp_all add: cosine_def)
  qed
  show ?thesis
  proof (cases "dot x x = 0")
    case True
    then show ?thesis using zx by (simp add: normalize_row_def)
  next
    case nx: False
    show ?thesis
    proof (cases "dot y y = 0")
      case True
      then show ?thesis using zy by (simp add: normalize_row_def [of y])
    next
      case False
      with nx show ?thesis
        by (simp add: normalize_row_def cosine_def dot_scale_left dot_scale_right)
    qed
  qed
qed

lemma cosine_commute: "cosine x y = cosine y x"
  by (simp add: cosine_def dot_commute mult.commute)

lemma cauchy_step:
  fixes a b S X Y :: real
  assumes "S\<^sup>2 \<le> X * Y" "0 \<le> X" "0 \<le> Y"
  shows "(a * b + S)\<^sup>2 \<le> (a * a + X) * (b * b + Y)"
proof -
  let ?u = "a\<^sup>2 * Y" and ?v = "b\<^sup>2 * X"
  have uv: "0 \<le> ?u + ?v" using assms by simp
  have "(2 * a * b * S)\<^sup>2 = 4 * (a\<^sup>2 * b\<^sup>2) * S\<^sup>2"
    by (simp add: power2_eq_square)
  also have "\<dots> \<le> 4 * (a\<^sup>2 * b\<^sup>2) * (X * Y)"
    using assms(1) by (intro mult_left_mono) simp_all
  also have "\<dots> = 4 * ?u * ?v" by simp
  also have "\<dots> \<le> (?u + ?v)\<^sup>2"
  proof -
    have "0 \<le> (?u - ?v)\<^sup>2" by simp
    then show ?thesis by (simp add: power2_eq_square algebra_simps)
  qed
  finally have "2 * a * b * S \<le> ?u + ?v"
    using uv by (rule power2_le_imp_le)
  then have "2 * a * b * S + S\<^sup>2 \<le> ?u + ?v + X * Y"
    using assms(1) by simp
  then show ?thesis
    by (simp add: power2_eq_square algebra_simps)
qed

lemma cauchy_schwarz: "(dot xs ys)\<^sup>2 \<le> dot xs xs * dot ys ys"
proof (induction xs ys rule: list_induct2')
  case (4 x xs y ys)
  then show ?case
    using cauchy_step [of "dot xs ys" "dot xs xs" "dot ys ys" x y]
    by (simp add: dot_self_nonneg)
qed (simp_all add: dot_self_nonneg)

lemma dot_nonneg:
  "list_all (\<lambda>v. 0 \<le> v) xs \<Longrightarrow> list_all (\<lambda>v. 0 \<le> v) ys \<Longrightarrow> 0 \<le> dot xs ys"
  by (induction xs ys rule: list_induct2') simp_all

lemma cosine_bounds:
  assumes "list_all (\<lambda>v. 0 \<le> v) xs" "list_all (\<lambda>v. 0 \<le> v) ys"
  shows "0 \<le> cosine xs ys \<and> cosine xs ys \<le> 1"
proof -
  let ?d = "sqrt (dot xs xs) * sqrt (dot ys ys)"
  have d0: "0 \<le> ?d" by (simp add: dot_self_nonneg)
  have n0: "0 \<le> dot xs ys" by (rule dot_nonneg [OF assms])
  have "(dot xs ys)\<^sup>2 \<le> ?d\<^sup>2"
    using cauchy_schwarz [of xs ys] by (simp add: power_mult_distrib dot_self_nonneg)
  then have le: "dot xs ys \<le> ?d"
    using d0 by (rule power2_le_imp_le)
  show ?thesis
  proof (cases "?d = 0")
    case True
    have "cosine xs ys = dot xs ys / ?d" by (simp only: cosine_def)
    also have "\<dots> = 0" by (simp only: True div_by_0)
    finally show ?thesis by simp
  next
    case False
    with d0 have "0 < ?d" by (simp only: less_le) simp
    then show ?thesis using n0 le by (simp add: cosine_def)
  qed
qed

lemma fitted_matrix:
  assumes "fitted e" "a \<in> set (book_ids e)"
  obtains m where "tfidf_matrix e = Some m" "length m = length (book_ids e)"
    "compute_similarity_matrix e = cosine_similarity m" "length (cosine_similarity m) \<noteq> 0"
proof -
  from assms(1) obtain m where m: "tfidf_matrix e = Some m" "length m = length (book_ids e)"
    by (auto simp: fitted_def split: option.splits)
  from assms(2) have "length m \<noteq> 0" using m by auto
  then have "compute_similarity_matrix e = cosine_similarity m"
    "length (cosine_similarity m) \<noteq> 0"
    using m by (simp_all add: compute_similarity_matrix_def cosine_similarity_def)
  with m show ?thesis by (rule that)
qed

lemma fitted_mat_get:
  assumes "fitted e" "tfidf_matrix e = Some m" "a \<in> set (book_ids e)" "t \<in> set (book_ids e)"
  shows "mat_get (cosine_similarity m) (index_of a (book_ids e)) (index_of t (book_ids e))
    = Inr (cosine (book_row e a) (book_row e t))"
proof -
  from assms(1,2) have len: "length m = length (book_ids e)"
    by (simp add: fitted_def)
  show ?thesis
    using assms(2-4) len
    by (simp add: mat_get_cosine index_of_less dot_normalize book_row_def)
qed

lemma content_similarity_single:
  assumes "fitted e" "a \<in> set (book_ids e)" "b \<in> set (book_ids e)" "a \<noteq> b"
  shows "calculate_content_similarity e a [b] = Inr [(b, cosine (book_row e a) (book_row e b))]"
proof -
  from assms(1,2) obtain m where m: "tfidf_matrix e = Some m"
    and sm: "compute_similarity_matrix e = cosine_similarity m"
    and ne: "length (cosine_similarity m) \<noteq> 0"
    by (rule fitted_matrix)
  show ?thesis
    using assms(2-4) sm ne fitted_mat_get [OF assms(1) m assms(2,3)]
    by (simp add: calculate_content_similarity_def Let_def)
qed

text \<open>
  Claim C6. After a fit, for two distinct books \<open>a\<close> and \<open>b\<close> of the corpus, the
  similarity \<^verbatim>\<open>calculate_content_similarity(a, [b])[b]\<close> and the similarity
  \<^verbatim>\<open>calculate_content_similarity(b, [a])[a]\<close> are the same number, the cosine of
  the two books' rows. Floats are idealised as reals, so the two are equal exactly.
\<close>

theorem C6_similarity_symmetric:
  assumes "fit_tfidf_model sk e0 db = Inr e"
    and "a \<in> set (book_ids e)" and "b \<in> set (book_ids e)" and "a \<noteq> b"
  shows "calculate_content_similarity e a [b] = Inr [(b, cosine (book_row e a) (book_row e b))]
    \<and> calculate_content_similarity e b [a] = Inr [(a, cosine (book_row e a) (book_row e b))]"
proof -
  have f: "fitted e" by (rule fit_fitted [OF assms(1)])
  from assms(4) have ne: "b \<noteq> a" by simp
  show ?thesis
    using content_similarity_single [OF f assms(2,3,4)]
      content_similarity_single [OF f assms(3,2) ne]
    by (simp add: cosine_commute [of "book_row e b"])
qed

theorem C6_similarity_symmetric_witness:
  "fit_tfidf_model sk_unit init_engine db_tie = Inr eng_tie
   \<and> (1::int) \<in> set (book_ids eng_tie) \<and> (3::int) \<in> set (book_ids eng_tie) \<and> (1::int) \<noteq> 3
   \<and> calculate_content_similarity eng_tie 1 [3] = Inr [(3, 1)]
   \<and> calculate_content_similarity eng_tie 3 [1] = Inr [(1, 1)]"
proof -
  have fit: "fit_tfidf_model sk_unit init_engine db_tie = Inr eng_tie"
    by (simp add: fit_tfidf_model_def build_corpus_def available_books_def db_tie_def ex_book_def
        sk_unit_def init_engine_def eng_tie_def)
  have a: "(1::int) \<in> set (book_ids eng_tie)" and b: "(3::int) \<in> set (book_ids eng_tie)"
    by (simp_all add: eng_tie_def)
  have ne: "(1::int) \<noteq> 3" by simp
  have c: "cosine (book_row eng_tie 1) (book_row eng_tie 3) = 1"
    by (simp add: cosine_def book_row_def eng_tie_def)
  from C6_similarity_symmetric [OF fit a b ne] fit a b show ?thesis
    by (simp add: c)
qed

section \<open>Score bounds\<close>

lemma set_dict_set: "set (dict_set k v d) \<subseteq> insert (k, v) (set d)"
  by (induction d) (auto split: if_splits)

lemma similarity_loop_values:
  assumes "similarity_loop ids sm b ts acc = Inr d"
    and "\<And>k v. (k, v) \<in> set acc \<Longrightarrow> P k v"
    and "\<And>t v. t \<in> set ids \<Longrightarrow> t \<noteq> b \<Longrightarrow>
           mat_get sm (index_of b ids) (index_of t ids) = Inr v \<Longrightarrow> P t v"
  shows "(k, v) \<in> set d \<Longrightarrow> P k v"
  using assms(1,2)
proof (induction ts arbitrary: acc)
  case Nil
  then show ?case by simp
next
  case (Cons t ts)
  show ?case
  proof (cases "t \<in> set ids \<and> t \<noteq> b")
    case True
    with Cons.prems(2) obtain w where
      get: "mat_get sm (index_of b ids) (index_of t ids) = Inr w"
      and run: "similarity_loop ids sm b ts (dict_set t w acc) = Inr d"
      by (auto split: sum.splits)
    have "P k' v'" if "(k', v') \<in> set (dict_set t w acc)" for k' v'
      using that set_dict_set [of t w acc] Cons.prems(3) assms(3) [OF _ _ get] True by auto
    from Cons.IH [OF Cons.prems(1) run this] show ?thesis .
  next
    case False
    with Cons.prems(2) have "similarity_loop ids sm b ts acc = Inr d" by auto
    from Cons.IH [OF Cons.prems(1) this Cons.prems(3)] show ?thesis .
  qed
qed

lemma mat_get_cosine_bounds:
  assumes "list_all (list_all (\<lambda>v. 0 \<le> v)) m" "mat_get (cosine_similarity m) i j = Inr v"
  shows "unit_interval v"
proof -
  from assms(2) have i: "i < length m"
    by (auto simp: mat_get_def cosine_similarity_def Let_def split: if_splits)
  with assms(2) have j: "j < length m"
    by (auto simp: mat_get_def cosine_similarity_def Let_def split: if_splits)
  from assms(2) i j have v: "v = cosine (m ! i) (m ! j)"
    by (simp add: mat_get_cosine dot_normalize)
  from assms(1) i j have "list_all (\<lambda>v. 0 \<le> v) (m ! i)" "list_all (\<lambda>v. 0 \<le> v) (m ! j)"
    by (simp_all add: list_all_length)
  from cosine_bounds [OF this] show ?thesis by (simp add: v unit_interval_def)
qed

lemma content_similarity_bounds:
  assumes "nonneg_matrix e" "calculate_content_similarity e b ts = Inr d" "(k, v) \<in> set d"
  shows "unit_interval v"
proof (cases "b \<in> set (book_ids e) \<and> length (compute_similarity_matrix e) \<noteq> 0")
  case False
  with assms(2,3) show ?thesis
    by (auto simp: calculate_content_similarity_def Let_def split: if_splits)
next
  case True
  then obtain m where m: "tfidf_matrix e = Some m"
    and sm: "compute_similarity_matrix e = cosine_similarity m"
    by (auto simp: compute_similarity_matrix_def split: option.splits if_splits)
  from assms(1) m have nn: "list_all (list_all (\<lambda>v. 0 \<le> v)) m"
    by (simp add: nonneg_matrix_def)
  from True assms(2) sm
  have run: "similarity_loop (book_ids e) (cosine_similarity m) b ts [] = Inr d"
    by (simp add: calculate_content_similarity_def Let_def)
  show ?thesis
    by (rule similarity_loop_values [OF run _ _ assms(3), where P = "\<lambda>k v. unit_interval v"])
      (auto intro: mat_get_cosine_bounds [OF nn])
qed

lemma sum_list_unit_interval:
  "(\<And>x. x \<in> set xs \<Longrightarrow> unit_interval x) \<Longrightarrow>
     0 \<le> sum_list xs \<and> sum_list xs \<le> real (length xs)"
  by (induction xs) (fastforce simp: unit_interval_def)+

lemma user_content_similarity_bounds:
  assumes "nonneg_matrix e" "calculate_user_content_similarity e db u b = Inr c"
  shows "unit_interval c"
proof (cases "liked_interactions db u = []")
  case True
  with assms(2) show ?thesis
    by (simp add: calculate_user_content_similarity_def unit_interval_def)
next
  case False
  with assms(2) obtain d where
    d: "calculate_content_similarity e b (map ui_book_id (liked_interactions db u)) = Inr d"
    and c: "c = (if d = [] then 0 else sum_list (map snd d) / real (length d))"
    by (auto simp: calculate_user_content_similarity_def Let_def split: sum.splits if_splits)
  have each: "unit_interval x" if "x \<in> set (map snd d)" for x
    using that content_similarity_bounds [OF assms(1) d] by auto
  have "0 \<le> sum_list (map snd d) \<and> sum_list (map snd d) \<le> real (length (map snd d))"
    by (rule sum_list_unit_interval) (rule each)
  then have "0 \<le> sum_list (map snd d) \<and> sum_list (map snd d) \<le> real (length d)" by simp
  then show ?thesis
    by (cases "d = []") (simp_all add: c unit_interval_def divide_le_eq)
qed

lemma set_dict_add:
  "(k', v') \<in> set (dict_add k w d) \<Longrightarrow>
     (k', v') \<in> set d \<or> (k' = k \<and> (v' = 0 + w \<or> (\<exists>v. (k, v) \<in> set d \<and> v' = v + w)))"
  by (induction d) (auto split: if_splits)

lemma dict_add_nonneg:
  "0 \<le> w \<Longrightarrow> list_all (\<lambda>kv. 0 \<le> snd kv) d \<Longrightarrow> list_all (\<lambda>kv. 0 \<le> snd kv) (dict_add k w d)"
  by (induction d) auto

lemma interaction_weights_pos: "0 < interaction_weights t"
  by (cases t) simp_all

lemma accumulate_nonneg:
  "accumulate db is (cs, as) = (cs', as') \<Longrightarrow>
     list_all (\<lambda>kv. 0 \<le> snd kv) cs \<Longrightarrow> list_all (\<lambda>kv. 0 \<le> snd kv) as \<Longrightarrow>
     list_all (\<lambda>kv. 0 \<le> snd kv) cs' \<and> list_all (\<lambda>kv. 0 \<le> snd kv) as'"
proof (induction "is" arbitrary: cs as)
  case Nil
  then show ?case by simp
next
  case (Cons i "is")
  show ?case
  proof (cases "book_get db (ui_book_id i)")
    case None
    with Cons show ?thesis by simp
  next
    case (Some b)
    let ?w = "interaction_weights (interaction_type i)"
    have w: "0 \<le> ?w" using interaction_weights_pos [of "interaction_type i"] by simp
    from Cons.prems(1) Some
    have run: "accumulate db is (dict_add (category b) ?w cs, dict_add (author b) ?w as)
        = (cs', as')"
      by (simp add: Let_def)
    show ?thesis
      by (rule Cons.IH [OF run]) (simp_all add: dict_add_nonneg w Cons.prems)
  qed
qed

lemma member_le_sum_list_real:
  fixes xs :: "real list"
  shows "list_all (\<lambda>x. 0 \<le> x) xs \<Longrightarrow> x \<in> set xs \<Longrightarrow> x \<le> sum_list xs"
proof (induction xs)
  case Nil
  then show ?case by simp
next
  case (Cons y ys)
  then have "0 \<le> sum_list ys" by (simp add: list_all_iff sum_list_nonneg)
  with Cons show ?case by auto
qed

lemma normalize_scores_bounds:
  assumes "list_all (\<lambda>kv. 0 \<le> snd kv) d" "(k, v) \<in> set (normalize_scores d)"
  shows "unit_interval v"
proof -
  let ?s = "sum_list (map snd d)"
  let ?t = "if ?s = 0 then 1 else ?s"
  from assms(2) obtain w where w: "(k, w) \<in> set d" and v: "v = w / ?t"
    by (auto simp: normalize_scores_def Let_def)
  from assms(1) w have w0: "0 \<le> w" by (auto simp: list_all_iff)
  have nn: "list_all (\<lambda>x. 0 \<le> x) (map snd d)"
    using assms(1) by (simp add: list_all_iff)
  have le: "w \<le> ?s"
    by (rule member_le_sum_list_real [OF nn]) (use w in force)
  show ?thesis
  proof (cases "?s = 0")
    case True
    with le w0 have "w = 0" by simp
    then show ?thesis by (simp add: v unit_interval_def)
  next
    case False
    with le w0 have "0 < ?s" by simp
    then show ?thesis using le w0 False by (simp add: v unit_interval_def)
  qed
qed

lemma dict_get0_bounds:
  assumes "\<And>k v. (k, v) \<in> set d \<Longrightarrow> unit_interval v"
  shows "unit_interval (dict_get0 d k)"
proof (cases "map_of d k")
  case None
  then show ?thesis by (simp add: dict_get0_def unit_interval_def)
next
  case (Some v)
  then have "(k, v) \<in> set d" by (rule map_of_SomeD)
  with assms Some show ?thesis by (simp add: dict_get0_def)
qed

lemma profile_bounds:
  assumes "build_user_profile db u = Some p"
  shows "unit_interval (dict_get0 (categories p) c) \<and> unit_interval (dict_get0 (authors p) a)"
proof -
  obtain cs as where acc: "accumulate db (interactions_of db u) ([], []) = (cs, as)"
    by (cases "accumulate db (interactions_of db u) ([], [])") auto
  from assms acc have p: "categories p = normalize_scores cs" "authors p = normalize_scores as"
    by (auto simp: build_user_profile_def Let_def split: if_splits)
  from accumulate_nonneg [OF acc]
  have nn: "list_all (\<lambda>kv. 0 \<le> snd kv) cs" "list_all (\<lambda>kv. 0 \<le> snd kv) as" by simp_all
  show ?thesis
    unfolding p
    by (intro conjI dict_get0_bounds normalize_scores_bounds [OF nn(1)]
        normalize_scores_bounds [OF nn(2)])
qed

lemma py_round3_bounds:
  assumes "unit_interval x"
  shows "unit_interval (py_round3 x)"
proof -
  define y where "y = x * 1000"
  define f where "f = \<lfloor>y\<rfloor>"
  define g where "g = (if y - of_int f < 1/2 then f else if 1/2 < y - of_int f then f + 1
      else if even f then f else f + 1)"
  from assms have y: "0 \<le> y" "y \<le> 1000" by (simp_all add: unit_interval_def y_def)
  have f0: "0 \<le> f" using y(1) by (simp add: f_def)
  have fy: "of_int f \<le> y" by (simp add: f_def)
  have f1: "f \<le> 1000" using y(2) by (simp add: f_def floor_le_iff)
  have g0: "0 \<le> g" using f0 by (simp add: g_def)
  have g1: "g \<le> 1000"
  proof (cases "f = 1000")
    case True
    with fy y(2) have "y - of_int f < 1/2" by simp
    then show ?thesis using True by (simp add: g_def)
  next
    case False
    with f1 have "f + 1 \<le> 1000" by simp
    with f1 show ?thesis by (simp add: g_def)
  qed
  have r: "py_round3 x = of_int g / 1000"
    by (simp add: py_round3_def Let_def g_def f_def y_def)
  from g0 have "(0::real) \<le> of_int g" by simp
  moreover from g1 have "(of_int g :: real) \<le> 1000" by (simp add: of_int_le_iff [symmetric] del: of_int_le_iff)
  ultimately show ?thesis by (simp add: r unit_interval_def)
qed

lemma book_score_bounds:
  assumes "nonneg_matrix e" "build_user_profile db u' = Some p" "book_score e db p u b = Inr s"
  shows "unit_interval s"
proof -
  from assms(3) obtain c where
    c: "calculate_user_content_similarity e db u (bk_id b) = Inr c"
    and s: "s = 0 + dict_get0 (categories p) (category b) * (4/10)
                 + dict_get0 (authors p) (author b) * (3/10) + c * (3/10)"
    by (auto simp: book_score_def split: sum.splits)
  from user_content_similarity_bounds [OF assms(1) c] have "0 \<le> c" "c \<le> 1"
    by (simp_all add: unit_interval_def)
  moreover from profile_bounds [OF assms(2), of "category b" "author b"]
  have "0 \<le> dict_get0 (categories p) (category b)" "dict_get0 (categories p) (category b) \<le> 1"
    "0 \<le> dict_get0 (authors p) (author b)" "dict_get0 (authors p) (author b) \<le> 1"
    by (simp_all add: unit_interval_def)
  ultimately show ?thesis by (simp add: s unit_interval_def)
qed

lemma score_books_values:
  "score_books e db p u bs acc = Inr d \<Longrightarrow>
     (\<forall>kv \<in> set acc. P (snd kv)) \<Longrightarrow>
     (\<forall>b \<in> set bs. \<forall>s. book_score e db p u b = Inr s \<longrightarrow> P s) \<Longrightarrow>
     \<forall>kv \<in> set d. P (snd kv)"
proof (induction bs arbitrary: acc)
  case Nil
  then show ?case by simp
next
  case (Cons b bs)
  from Cons.prems(1) obtain s where sc: "book_score e db p u b = Inr s"
    and run: "score_books e db p u bs (dict_set (bk_id b) s acc) = Inr d"
    by (auto split: sum.splits)
  have Ps: "P s" using Cons.prems(3) sc by simp
  have acc': "\<forall>kv \<in> set (dict_set (bk_id b) s acc). P (snd kv)"
    using set_dict_set [of "bk_id b" s acc] Cons.prems(2) Ps by auto
  have rest: "\<forall>b \<in> set bs. \<forall>s. book_score e db p u b = Inr s \<longrightarrow> P s"
    using Cons.prems(3) by simp
  from Cons.IH [OF run acc' rest] show ?case .
qed

lemma format_recommendations_entries:
  "format_recommendations db p book_scores ids = Inr r \<Longrightarrow> x \<in> set r \<Longrightarrow>
     \<exists>i s. i \<in> set ids \<and> book_get db i = Some (rec_book x) \<and> map_of book_scores i = Some s
       \<and> relevance_score x = py_round3 s
       \<and> recommendation_reason x = generate_reason p (rec_book x)"
proof (induction ids arbitrary: r)
  case Nil
  then show ?case by simp
next
  case (Cons i ids)
  show ?case
  proof (cases "book_get db i")
    case None
    with Cons.prems have "format_recommendations db p book_scores ids = Inr r" by simp
    from Cons.IH [OF this Cons.prems(2)] show ?thesis by auto
  next
    case (Some b)
    with Cons.prems(1) obtain s rest where s: "map_of book_scores i = Some s"
      and rest: "format_recommendations db p book_scores ids = Inr rest"
      and r: "r = \<lparr>rec_book = b, relevance_score = py_round3 s,
                   recommendation_reason = generate_reason p b\<rparr> # rest"
      by (auto split: option.splits sum.splits)
    from Cons.prems(2) r consider
      "x = \<lparr>rec_book = b, relevance_score = py_round3 s,
             recommendation_reason = generate_reason p b\<rparr>" | "x \<in> set rest"
      by auto
    then show ?thesis
    proof cases
      case 1
      with Some s show ?thesis by auto
    next
      case 2
      from Cons.IH [OF rest this] show ?thesis by auto
    qed
  qed
qed

lemma personalized_bounds:
  assumes "nonneg_matrix e" "build_user_profile db u' = Some p"
    "personalized e db p u n = Inr r" "x \<in> set r"
  shows "unit_interval (relevance_score x)"
proof (cases "candidate_books db u = []")
  case True
  with assms(3,4) show ?thesis by (simp add: personalized_def)
next
  case False
  with assms(3) obtain d where d: "score_books e db p u (candidate_books db u) [] = Inr d"
    and fmt: "format_recommendations db p d
        (map fst (slice_to n (sorted_desc snd d))) = Inr r"
    by (auto simp: personalized_def Let_def split: sum.splits)
  from format_recommendations_entries [OF fmt assms(4)] obtain i s where
    s: "map_of d i = Some s" and rel: "relevance_score x = py_round3 s"
    by blast
  from s have mem: "(i, s) \<in> set d" by (rule map_of_SomeD)
  have "\<forall>kv \<in> set d. unit_interval (snd kv)"
    by (rule score_books_values [OF d]) (auto intro: book_score_bounds [OF assms(1,2)])
  with mem have "unit_interval s" by force
  then show ?thesis by (simp add: rel py_round3_bounds)
qed

lemma popular_bounds:
  assumes "get_popular_books db n = Inr r" "x \<in> set r"
  shows "unit_interval (relevance_score x)"
  using assms by (auto simp: get_popular_books_def popular_entry_def unit_interval_def
      split: sum.splits)

text \<open>
  In exact real arithmetic, with non-negative weights in the fitted matrix, every
  relevance score and every similarity the model returns lies between \<open>0\<close> and \<open>1\<close>.
  The floats of the program can leave the interval by a rounding error.
\<close>

lemma scores_in_unit_interval_exact:
  assumes "nonneg_matrix e1"
  shows "(generate_recommendations sk e db u n = Inr (r, e1) \<longrightarrow>
            (\<forall>x \<in> set r. 0 \<le> relevance_score x \<and> relevance_score x \<le> 1))
       \<and> (calculate_content_similarity e1 b candidates = Inr d \<longrightarrow>
            (\<forall>kv \<in> set d. 0 \<le> snd kv \<and> snd kv \<le> 1))"
proof (intro conjI impI ballI)
  fix x
  assume gen: "generate_recommendations sk e db u n = Inr (r, e1)" and x: "x \<in> set r"
  from gen have fit: "fit_tfidf_model sk e db = Inr e1"
    by (auto simp: generate_recommendations_def Let_def split: sum.splits)
  have "unit_interval (relevance_score x)"
  proof (cases "build_user_profile db u")
    case None
    with gen fit have "get_popular_books db n = Inr r"
      by (auto simp: generate_recommendations_def use_fallback_def split: sum.splits)
    from popular_bounds [OF this x] show ?thesis .
  next
    case (Some p)
    with gen fit have "get_popular_books db n = Inr r \<or> personalized e1 db p u n = Inr r"
      by (auto simp: generate_recommendations_def Let_def split: sum.splits if_splits)
    then show ?thesis
      using popular_bounds [OF _ x] personalized_bounds [OF assms Some _ x] by blast
  qed
  then show "0 \<le> relevance_score x" "relevance_score x \<le> 1"
    by (simp_all add: unit_interval_def)
next
  fix kv
  assume run: "calculate_content_similarity e1 b candidates = Inr d" and kv: "kv \<in> set d"
  from kv have "(fst kv, snd kv) \<in> set d" by simp
  from content_similarity_bounds [OF assms run this]
  show "0 \<le> snd kv" "snd kv \<le> 1" by (simp_all add: unit_interval_def)
qed

subsection \<open>Rounding\<close>

lemma pow2_powr: "pow2 k = 2 powr (of_int k)"
proof (cases "0 \<le> k")
  case True
  have p: "(2::real) powr real (nat k) = 2 ^ nat k"
    by (rule powr_realpow) simp
  from True have "real (nat k) = of_int k" by simp
  with p have "(2::real) ^ nat k = 2 powr (of_int k)" by (simp only:)
  with True show ?thesis by (simp only: pow2_def if_True)
next
  case False
  have p: "(2::real) powr real (nat (- k)) = 2 ^ nat (- k)"
    by (rule powr_realpow) simp
  from False have "real (nat (- k)) = - of_int k" by simp
  with p have "(2::real) ^ nat (- k) = 2 powr (- of_int k)" by (simp only:)
  then have "1 / (2::real) ^ nat (- k) = 2 powr (of_int k)"
    by (simp only: powr_minus_divide) simp
  with False show ?thesis by (simp only: pow2_def if_False)
qed

lemma rne_eq: "\<bar>y - of_int q\<bar> < 1/2 \<Longrightarrow> rne y = q"
proof -
  assume a: "\<bar>y - of_int q\<bar> < 1/2"
  show ?thesis
  proof (cases "of_int q \<le> y")
    case True
    with a have "\<lfloor>y\<rfloor> = q" by (simp add: floor_eq_iff)
    with a True show ?thesis by (simp add: rne_def Let_def)
  next
    case False
    with a have f: "\<lfloor>y\<rfloor> = q - 1" by (simp add: floor_eq_iff)
    from a False have "1/2 < y - of_int (q - 1)" by simp
    with f show ?thesis by (simp add: rne_def Let_def)
  qed
qed

text \<open>
  A real between \<open>2\<^sup>k\<close> and \<open>2\<^sup>k\<^sup>+\<^sup>1\<close> rounds to the multiple of \<open>2\<^sup>k\<^sup>-\<^sup>5\<^sup>2\<close> that is
  less than half a unit away.
\<close>

lemma fl_eq:
  assumes "pow2 k \<le> x" "x < pow2 (k + 1)" "\<bar>x / pow2 (k - 52) - of_int q\<bar> < 1/2"
  shows "fl x = of_int q * pow2 (k - 52)"
proof -
  have pos: "0 < pow2 k" by (simp add: pow2_powr)
  with assms(1) have x: "0 < x" by simp
  have "\<lfloor>log 2 x\<rfloor> = k"
    using assms(1,2) x by (simp add: floor_log_eq_powr_iff pow2_powr)
  with x rne_eq [OF assms(3)] show ?thesis
    by (simp add: fl_def Let_def)
qed

text \<open>
  The steps of the sum \<open>w3 * w3 + w3 * w3 + w3 * w3\<close>: the square rounds up, the second
  partial sum is exact, the third rounds up to \<open>1 + 2\<^sup>-\<^sup>5\<^sup>2\<close>.
\<close>

lemma fl_sq: "fl (w3 * w3) = 6004799503160663 / 18014398509481984"
  using fl_eq [of "- 2" "w3 * w3" 6004799503160663]
  by (simp add: pow2_def w3_def)

lemma fl_p: "fl (6004799503160663 / 18014398509481984) = 6004799503160663 / 18014398509481984"
  using fl_eq [of "- 2" "6004799503160663 / 18014398509481984" 6004799503160663]
  by (simp add: pow2_def)

lemma fl_2p: "fl (6004799503160663 / 9007199254740992) = 6004799503160663 / 9007199254740992"
  using fl_eq [of "- 1" "6004799503160663 / 9007199254740992" 6004799503160663]
  by (simp add: pow2_def)

lemma fl_3p: "fl (18014398509481989 / 18014398509481984) = 4503599627370497 / 4503599627370496"
  using fl_eq [of 0 "18014398509481989 / 18014398509481984" 4503599627370497]
  by (simp add: pow2_def)

lemma fl_w3: "fl w3 = w3"
  using fl_eq [of "- 1" w3 5200308914369309]
  by (simp add: pow2_def w3_def)

lemma fl_sqrt: "fl (sqrt (4503599627370497 / 4503599627370496)) = 1"
proof -
  let ?s = "sqrt (4503599627370497 / 4503599627370496)"
  have lo: "1 \<le> ?s" by simp
  have "?s < 9007199254740993 / 9007199254740992"
    by (rule real_less_lsqrt) (simp_all add: power2_eq_square)
  with lo have "\<bar>?s / pow2 (0 - 52) - of_int 4503599627370496\<bar> < 1/2" "?s < pow2 (0 + 1)"
    by (simp_all add: pow2_def abs_if)
  with lo fl_eq [of 0 ?s 4503599627370496] show ?thesis
    by (simp add: pow2_def)
qed

lemma fl_dot_w3: "fl_dot [w3, w3, w3] [w3, w3, w3] = 4503599627370497 / 4503599627370496"
  by (simp add: fl_dot_def fl_sq fl_p fl_2p fl_3p)

lemma fl_normalize_w3: "fl_normalize_row [w3, w3, w3] = [w3, w3, w3]"
  by (simp add: fl_normalize_row_def Let_def fl_dot_w3 fl_sqrt fl_w3)

lemma fl_cosine_w3:
  "fl_cosine_similarity [[w3, w3, w3], [w3, w3, w3]] =
     [[4503599627370497 / 4503599627370496, 4503599627370497 / 4503599627370496],
      [4503599627370497 / 4503599627370496, 4503599627370497 / 4503599627370496]]"
  by (simp add: fl_cosine_similarity_def Let_def fl_normalize_w3 fl_dot_w3)

lemma fit_equal: "fit_tfidf_model sk_w3 init_engine db_equal = Inr eng_equal"
  by (simp add: fit_tfidf_model_def build_corpus_def available_books_def db_equal_def
      dune_def eng_equal_def init_engine_def sk_w3_def Let_def)

text \<open>
  Claim C8 fails in the floats of the program. The two books of \<open>db_equal\<close> have the same
  text, so their rows in the fitted matrix are equal, three weights
  \<^verbatim>\<open>0.5773502691896258\<close> each. \<^verbatim>\<open>cosine_similarity\<close> adds the three rounded squares
  to \<^verbatim>\<open>1.0000000000000002\<close>, the double \<open>1 + 2\<^sup>-\<^sup>5\<^sup>2\<close>, and nothing clips it:
  \<^verbatim>\<open>calculate_content_similarity(1, [2])\<close> returns a similarity above \<open>1\<close>.
\<close>

theorem C8_similarity_above_one:
  "fit_tfidf_model sk_w3 init_engine db_equal = Inr eng_equal
   \<and> calculate_content_similarity_fl eng_equal 1 [2]
       = Inr [(2, 4503599627370497 / 4503599627370496)]
   \<and> (1::real) < 4503599627370497 / 4503599627370496"
proof (intro conjI)
  show "fit_tfidf_model sk_w3 init_engine db_equal = Inr eng_equal"
    by (rule fit_equal)
  show "calculate_content_similarity_fl eng_equal 1 [2]
      = Inr [(2, 4503599627370497 / 4503599627370496)]"
    by (simp add: calculate_content_similarity_fl_def compute_similarity_matrix_fl_def
        eng_equal_def init_engine_def fl_cosine_w3 mat_get_def Let_def)
  show "(1::real) < 4503599627370497 / 4503599627370496"
    by simp
qed

section \<open>The personalised score\<close>

lemma similarity_loop_distinct:
  "similarity_loop ids sm b ts acc = Inr d \<Longrightarrow> distinct (map fst acc) \<Longrightarrow>
     distinct (map fst d)"
proof (induction ts arbitrary: acc)
  case Nil
  then show ?case by simp
next
  case (Cons t ts)
  show ?case
  proof (cases "t \<in> set ids \<and> t \<noteq> b")
    case True
    with Cons.prems(1) obtain v where
      run: "similarity_loop ids sm b ts (dict_set t v acc) = Inr d"
      by (auto split: sum.splits)
    have "distinct (map fst (dict_set t v acc))"
      using Cons.prems(2) by (simp add: map_fst_dict_set)
    from Cons.IH [OF run this] show ?thesis .
  next
    case False
    with Cons.prems(1) have "similarity_loop ids sm b ts acc = Inr d" by auto
    from Cons.IH [OF this Cons.prems(2)] show ?thesis .
  qed
qed

lemma content_similarity_exact:
  assumes "fitted e" "x \<in> set (book_ids e)"
  shows "\<exists>d. calculate_content_similarity e x ts = Inr d
    \<and> distinct (map fst d)
    \<and> set (map fst d) = {t \<in> set ts. t \<in> set (book_ids e) \<and> t \<noteq> x}
    \<and> (\<forall>kv \<in> set d. snd kv = cosine (book_row e x) (book_row e (fst kv)))"
proof -
  from assms obtain m where m: "tfidf_matrix e = Some m"
    and sm: "compute_similarity_matrix e = cosine_similarity m"
    and ne: "length (cosine_similarity m) \<noteq> 0"
    by (rule fitted_matrix)
  from content_similarity_total [OF assms(1), of x ts] obtain d where
    d: "calculate_content_similarity e x ts = Inr d" by blast
  with assms(2) sm ne
  have run: "similarity_loop (book_ids e) (cosine_similarity m) x ts [] = Inr d"
    by (simp add: calculate_content_similarity_def Let_def)
  have dist: "distinct (map fst d)"
    by (rule similarity_loop_distinct [OF run]) simp
  have keys: "set (map fst d) = {t \<in> set ts. t \<in> set (book_ids e) \<and> t \<noteq> x}"
    using similarity_loop_keys [OF run] by simp
  have vals: "snd kv = cosine (book_row e x) (book_row e (fst kv))" if "kv \<in> set d" for kv
  proof -
    from that have mem: "(fst kv, snd kv) \<in> set d" by simp
    show ?thesis
      by (rule similarity_loop_values [OF run _ _ mem,
            where P = "\<lambda>k v. v = cosine (book_row e x) (book_row e k)"])
        (simp_all add: fitted_mat_get [OF assms(1) m assms(2)])
  qed
  from d dist keys vals show ?thesis by blast
qed

lemma sum_list_distinct_eq:
  fixes f :: "'a \<Rightarrow> real"
  assumes "distinct xs" "distinct ys" "set xs = set ys"
  shows "sum_list (map f xs) = sum_list (map f ys) \<and> length xs = length ys"
  using assms
  by (metis distinct_card sum_list_distinct_conv_sum_set)

lemma map_of_zip_index:
  "length ids = length m \<Longrightarrow> t \<in> set ids \<Longrightarrow>
     map_of (zip ids m) t = Some (m ! index_of t ids)"
  by (induction ids m rule: list_induct2) auto

lemma spec_row_eq:
  assumes "fitted e" "t \<in> set (book_ids e)"
  shows "spec_row e t = book_row e t"
proof -
  from assms(1) obtain m where m: "tfidf_matrix e = Some m" "length m = length (book_ids e)"
    by (auto simp: fitted_def split: option.splits)
  from map_of_zip_index [OF m(2) [symmetric] assms(2)] m(1)
  show ?thesis by (simp add: spec_row_def book_row_def)
qed

lemma spec_liked_books_set:
  "set (spec_liked_books db u) = set (map ui_book_id (liked_interactions db u))"
  by (auto simp: spec_liked_books_def liked_interactions_def)

lemma user_content_similarity_exact:
  assumes "fitted e"
  shows "calculate_user_content_similarity e db u x = Inr (mean_liked_similarity e db u x)"
proof (cases "x \<in> set (book_ids e)")
  case False
  then show ?thesis
    by (simp add: calculate_user_content_similarity_def calculate_content_similarity_def
        mean_liked_similarity_def Let_def)
next
  case True
  let ?ts = "map ui_book_id (liked_interactions db u)"
  let ?L = "liked_in_corpus e db u x"
  let ?f = "\<lambda>t. cosine (book_row e x) (book_row e t)"
  let ?g = "\<lambda>t. cosine (spec_row e x) (spec_row e t)"
  from content_similarity_exact [OF assms True, of ?ts] obtain d where
    d: "calculate_content_similarity e x ?ts = Inr d"
    and dist: "distinct (map fst d)"
    and keys: "set (map fst d) = {t \<in> set ?ts. t \<in> set (book_ids e) \<and> t \<noteq> x}"
    and vals: "\<forall>kv \<in> set d. snd kv = ?f (fst kv)"
    by blast
  have L: "distinct ?L" "set ?L = set (map fst d)"
    unfolding keys using spec_liked_books_set [of db u]
    by (auto simp: liked_in_corpus_def spec_liked_books_def)
  from sum_list_distinct_eq [OF dist L(1) L(2) [symmetric], of ?f]
  have eq: "sum_list (map ?f (map fst d)) = sum_list (map ?f ?L)" "length d = length ?L"
    by simp_all
  have rows: "map ?g ?L = map ?f ?L"
    by (rule map_cong [OF refl])
      (simp add: liked_in_corpus_def spec_row_eq [OF assms] True)
  have ms: "map snd d = map (?f \<circ> fst) d"
    by (rule map_cong [OF refl]) (simp add: vals)
  have sum: "sum_list (map snd d) = sum_list (map ?g ?L)"
    using eq(1) by (simp add: ms rows)
  have empty: "d = [] \<longleftrightarrow> ?L = []"
    using eq(2) by (metis length_0_conv)
  have liked: "liked_interactions db u = [] \<Longrightarrow> ?L = []"
    using spec_liked_books_set [of db u] by (simp add: liked_in_corpus_def)
  show ?thesis
    using True d sum eq(2) empty liked
    by (auto simp: calculate_user_content_similarity_def mean_liked_similarity_def Let_def)
qed

lemma book_score_exact:
  assumes "fitted e"
  shows "book_score e db p u b = Inr (spec_score e db p u b)"
  by (simp add: book_score_def user_content_similarity_exact [OF assms] spec_score_def
      spec_weight_def dict_get0_def)

lemma book_score_of:
  assumes "fitted e"
  shows "book_score e db p u b = Inr (score_of e db p u b)"
  using book_score_total [OF assms, of db p u b] by (auto simp: score_of_def)

lemma dict_set_fresh: "k \<notin> set (map fst d) \<Longrightarrow> dict_set k v d = d @ [(k, v)]"
  by (induction d) auto

lemma score_books_exact:
  assumes "fitted e"
  shows "distinct (map bk_id bs) \<Longrightarrow> set (map bk_id bs) \<inter> set (map fst acc) = {} \<Longrightarrow>
     score_books e db p u bs acc = Inr (acc @ map (\<lambda>b. (bk_id b, score_of e db p u b)) bs)"
proof (induction bs arbitrary: acc)
  case Nil
  then show ?case by simp
next
  case (Cons b bs)
  have fresh: "dict_set (bk_id b) (score_of e db p u b) acc
      = acc @ [(bk_id b, score_of e db p u b)]"
    using Cons.prems(2) by (simp add: dict_set_fresh)
  have "score_books e db p u bs (acc @ [(bk_id b, score_of e db p u b)])
      = Inr ((acc @ [(bk_id b, score_of e db p u b)])
               @ map (\<lambda>b. (bk_id b, score_of e db p u b)) bs)"
    by (rule Cons.IH) (use Cons.prems in auto)
  then show ?case
    by (simp add: book_score_of [OF assms] fresh)
qed

lemma book_get_unique:
  assumes "distinct (map bk_id (books db))" "b \<in> set (books db)"
  shows "book_get db (bk_id b) = Some b"
proof -
  have "find (\<lambda>c. bk_id c = bk_id b) bs = Some b"
    if "distinct (map bk_id bs)" "b \<in> set bs" for bs
    using that by (induction bs) (auto simp: image_iff)
  from this [OF assms] show ?thesis by (simp add: book_get_def)
qed

lemma insort_key_map:
  "insort_key f (g x) (map g ys) = map g (insort_key (\<lambda>y. f (g y)) x ys)"
  by (induction ys) simp_all

lemma sort_key_map: "sort_key f (map g xs) = map g (sort_key (\<lambda>x. f (g x)) xs)"
  by (induction xs) (simp_all add: insort_key_map)

lemma sorted_desc_map: "sorted_desc f (map g xs) = map g (sorted_desc (\<lambda>x. f (g x)) xs)"
  by (simp add: sorted_desc_def sort_key_map rev_map)

lemma slice_to_map: "slice_to n (map g xs) = map g (slice_to n xs)"
  by (simp add: slice_to_def take_map)

lemma set_slice_to: "set (slice_to n xs) \<subseteq> set xs"
  by (auto simp: slice_to_def dest: in_set_takeD)

lemma format_recommendations_exact:
  assumes "distinct (map bk_id (books db))" "set bs \<subseteq> set (books db)"
    "distinct (map bk_id bs)"
  shows "set cs \<subseteq> set bs \<Longrightarrow>
     format_recommendations db p (map (\<lambda>b. (bk_id b, score_of e db p u b)) bs) (map bk_id cs)
       = Inr (map (make_entry e db p u) cs)"
proof (induction cs)
  case Nil
  then show ?case by simp
next
  case (Cons c cs)
  then have c: "c \<in> set bs" and rest: "set cs \<subseteq> set bs" by simp_all
  from c assms(2) have get: "book_get db (bk_id c) = Some c"
    by (auto intro: book_get_unique [OF assms(1)])
  have "map_of (map (\<lambda>b. (bk_id b, score_of e db p u b)) bs) (bk_id c)
      = Some (score_of e db p u c)"
    using assms(3) c by (intro map_of_is_SomeI) (auto simp: comp_def)
  with get Cons.IH [OF rest] show ?case
    by (simp add: make_entry_def)
qed

lemma personalized_exact:
  assumes "fitted e" "distinct (map bk_id (books db))"
  shows "personalized e db p u n
    = Inr (map (make_entry e db p u)
        (slice_to n (sorted_desc (score_of e db p u) (candidate_books db u))))"
proof (cases "candidate_books db u = []")
  case True
  then show ?thesis by (simp add: personalized_def slice_to_def sorted_desc_def)
next
  case False
  let ?bs = "candidate_books db u"
  let ?h = "\<lambda>b. (bk_id b, score_of e db p u b)"
  have sub: "set ?bs \<subseteq> set (books db)"
    by (auto simp: candidate_books_def Let_def)
  have dist: "distinct (map bk_id ?bs)"
    using assms(2) by (simp add: candidate_books_def Let_def distinct_map_filter)
  have d: "score_books e db p u ?bs [] = Inr (map ?h ?bs)"
    using score_books_exact [OF assms(1) dist, of "[]" db p u] by simp
  have ids: "map fst (slice_to n (sorted_desc snd (map ?h ?bs)))
      = map bk_id (slice_to n (sorted_desc (score_of e db p u) ?bs))"
    by (simp add: sorted_desc_map slice_to_map comp_def)
  have cs: "set (slice_to n (sorted_desc (score_of e db p u) ?bs)) \<subseteq> set ?bs"
    using set_slice_to [of n "sorted_desc (score_of e db p u) ?bs"]
    by (simp add: set_sorted_desc)
  show ?thesis
    using False d format_recommendations_exact [OF assms(2) sub dist cs, of p e u]
    by (simp add: personalized_def Let_def ids)
qed


lemma py_round3_close: "\<bar>py_round3 x - x\<bar> \<le> 1/2000"
proof -
  define y where "y = x * 1000"
  define f where "f = \<lfloor>y\<rfloor>"
  define g where "g = (if y - of_int f < 1/2 then f else if 1/2 < y - of_int f then f + 1
      else if even f then f else f + 1)"
  have lo: "of_int f \<le> y" and hi: "y < of_int f + 1"
    by (simp_all add: f_def)
  have half: "\<bar>of_int g - y\<bar> \<le> 1/2"
    using lo hi by (auto simp: g_def)
  have r: "py_round3 x = of_int g / 1000"
    by (simp add: py_round3_def Let_def g_def f_def y_def)
  have e: "py_round3 x - x = (of_int g - y) / 1000"
    by (simp add: r y_def diff_divide_distrib)
  have "\<bar>py_round3 x - x\<bar> = \<bar>(of_int g - y) / 1000\<bar>"
    by (simp only: e)
  also have "\<dots> = \<bar>of_int g - y\<bar> / 1000"
    by (simp only: abs_divide abs_numeral)
  also have "\<dots> \<le> (1/2) / 1000"
    using half by (intro divide_right_mono) simp_all
  finally show ?thesis by simp
qed

lemma single_interaction_profile:
  assumes "interactions_of db u = [i]" "book_get db (ui_book_id i) = Some lb"
  shows "build_user_profile db u
    = Some \<lparr>categories = [(category lb, 1)], authors = [(author lb, 1)], interaction_count = 1\<rparr>"
  using assms interaction_weights_pos [of "interaction_type i"]
  by (simp add: build_user_profile_def normalize_scores_def Let_def)

lemma generate_personalized:
  assumes "generate_recommendations sk e db u n = Inr (r, e1)"
    "build_user_profile db u = Some p" "available_books db \<noteq> []"
  shows "fit_tfidf_model sk e db = Inr e1 \<and> personalized e1 db p u n = Inr r"
proof -
  from assms(1) have fit: "fit_tfidf_model sk e db = Inr e1"
    by (auto simp: generate_recommendations_def Let_def split: sum.splits)
  from fit_book_ids [OF fit] assms(3) have "book_ids e1 \<noteq> []" by simp
  with assms(1,2) fit show ?thesis
    by (auto simp: generate_recommendations_def use_fallback_def split: sum.splits)
qed

text \<open>
  Claim C5. After a fit, the score the personalised path computes for a book is
  \<open>0.4\<close> times the profile's normalised weight of the book's category, plus \<open>0.3\<close>
  times the weight of its author, plus \<open>0.3\<close> times the mean cosine similarity between
  the book and the books the user liked or requested that are in the corpus, each counted
  once (\<open>0\<close> when there is none): \<open>spec_score\<close>, which is written from the specification
  and reads the interaction table and the matrix by itself. With unique book ids every
  returned entry is a candidate, and the relevance it carries is that score of its own
  book rounded to three decimals for presentation, so less than \<open>0.001\<close> away from it. A
  user whose single interaction is on an existing book of some category has weight \<open>1\<close>
  for that category, so a candidate of the category gets exactly \<open>0.4 * 1\<close> from it.
  Floats are idealised as reals; the statement on the returned value does not depend on
  which way a tie of the rounding goes.
\<close>

theorem C5_relevance_score:
  assumes "fit_tfidf_model sk e0 db = Inr e"
  shows "book_score e db p u b = Inr (spec_score e db p u b)
    \<and> (distinct (map bk_id (books db)) \<longrightarrow> build_user_profile db u = Some p \<longrightarrow>
         available_books db \<noteq> [] \<longrightarrow> generate_recommendations sk e0 db u n = Inr (r, e) \<longrightarrow>
         (\<forall>x \<in> set r. rec_book x \<in> set (candidate_books db u)
            \<and> \<bar>relevance_score x - spec_score e db p u (rec_book x)\<bar> < 1/1000))
    \<and> (interactions_of db u = [i] \<longrightarrow> book_get db (ui_book_id i) = Some lb \<longrightarrow>
         category b = category lb \<longrightarrow> build_user_profile db u = Some p \<longrightarrow>
         4/10 * spec_weight (categories p) (category b) = 4/10 * 1)"
proof -
  have f: "fitted e" by (rule fit_fitted [OF assms])
  have one: "book_score e db p u b = Inr (spec_score e db p u b)" for b
    by (rule book_score_exact [OF f])
  have sc: "score_of e db p u b = spec_score e db p u b" for b
    using one [of b] by (simp add: score_of_def)
  have two: "\<forall>x \<in> set r. rec_book x \<in> set (candidate_books db u)
            \<and> \<bar>relevance_score x - spec_score e db p u (rec_book x)\<bar> < 1/1000"
    if "distinct (map bk_id (books db))" "build_user_profile db u = Some p"
      "available_books db \<noteq> []" "generate_recommendations sk e0 db u n = Inr (r, e)"
  proof
    fix x assume x: "x \<in> set r"
    from generate_personalized [OF that(4,2,3)] have "personalized e db p u n = Inr r" by simp
    with personalized_exact [OF f that(1), of p u n]
    have r: "r = map (make_entry e db p u)
        (slice_to n (sorted_desc (score_of e db p u) (candidate_books db u)))"
      by simp
    with x obtain c where c: "c \<in> set (candidate_books db u)" and xc: "x = make_entry e db p u c"
      using set_slice_to [of n "sorted_desc (score_of e db p u) (candidate_books db u)"]
      by (auto simp: set_sorted_desc)
    have "\<bar>py_round3 (spec_score e db p u c) - spec_score e db p u c\<bar> \<le> 1/2000"
      by (rule py_round3_close)
    then show "rec_book x \<in> set (candidate_books db u)
            \<and> \<bar>relevance_score x - spec_score e db p u (rec_book x)\<bar> < 1/1000"
      using c by (simp add: xc make_entry_def sc)
  qed
  have three: "4/10 * spec_weight (categories p) (category b) = 4/10 * 1"
    if "interactions_of db u = [i]" "book_get db (ui_book_id i) = Some lb"
      "category b = category lb" "build_user_profile db u = Some p"
    using single_interaction_profile [OF that(1,2)] that(3,4)
    by (auto simp: spec_weight_def)
  from one [of b] two three show ?thesis by blast
qed

lemma fit_tie: "fit_tfidf_model sk_unit init_engine db_tie = Inr eng_tie"
  by (simp add: fit_tfidf_model_def build_corpus_def available_books_def db_tie_def ex_book_def
      sk_unit_def init_engine_def eng_tie_def)

lemma run_tie: "generate_recommendations sk_unit init_engine db_tie 1 10
     = Inr ([rec_fiction (ex_book 3 2 ''A'' ''Fiction'' True),
             rec_fiction (ex_book 2 2 ''C'' ''Fiction'' True)], eng_tie)"
  apply (simp add: eval_defs db_tie_def eng_tie_def rec_fiction_def)
  apply (simp add: py_round3_def generate_reason_def eval_defs join_and_def)
  done

lemma profile_tie: "build_user_profile db_tie 1 = Some profile_tie"
  by (simp add: build_user_profile_def interactions_of_def db_tie_def ex_interaction_def
      ex_book_def book_get_def normalize_scores_def profile_tie_def)

lemma spec_score_tie:
  "spec_score eng_tie db_tie profile_tie 1 (ex_book 3 2 ''A'' ''Fiction'' True) = 7/10"
proof -
  have mean: "mean_liked_similarity eng_tie db_tie 1 3 = 1"
    by (simp add: mean_liked_similarity_def liked_in_corpus_def spec_liked_books_def
        db_tie_def ex_interaction_def eng_tie_def cosine_def spec_row_def init_engine_def)
  show ?thesis
    using mean by (simp add: spec_score_def profile_tie_def spec_weight_def ex_book_def)
qed

theorem C5_relevance_score_witness:
  "fit_tfidf_model sk_unit init_engine db_tie = Inr eng_tie
   \<and> distinct (map bk_id (books db_tie))
   \<and> build_user_profile db_tie 1 = Some profile_tie
   \<and> available_books db_tie \<noteq> []
   \<and> interactions_of db_tie 1 = [ex_interaction 1 1 1 Like]
   \<and> book_get db_tie 1 = Some (ex_book 1 2 ''H'' ''Fiction'' True)
   \<and> generate_recommendations sk_unit init_engine db_tie 1 10
       = Inr ([rec_fiction (ex_book 3 2 ''A'' ''Fiction'' True),
               rec_fiction (ex_book 2 2 ''C'' ''Fiction'' True)], eng_tie)
   \<and> book_score eng_tie db_tie profile_tie 1 (ex_book 3 2 ''A'' ''Fiction'' True) = Inr (7/10)
   \<and> \<bar>relevance_score (rec_fiction (ex_book 3 2 ''A'' ''Fiction'' True)) - 7/10\<bar> < 1/1000
   \<and> 4/10 * spec_weight (categories profile_tie) ''Fiction'' = 4/10 * 1"
proof -
  let ?b = "ex_book 3 2 ''A'' ''Fiction'' True"
  have dist: "distinct (map bk_id (books db_tie))"
    by (simp add: db_tie_def ex_book_def)
  have av: "available_books db_tie \<noteq> []"
    by (simp add: available_books_def db_tie_def ex_book_def)
  have inter: "interactions_of db_tie 1 = [ex_interaction 1 1 1 Like]"
    by (simp add: interactions_of_def db_tie_def ex_interaction_def)
  have get: "book_get db_tie (ui_book_id (ex_interaction 1 1 1 Like))
      = Some (ex_book 1 2 ''H'' ''Fiction'' True)"
    by (simp add: book_get_def db_tie_def ex_interaction_def ex_book_def)
  have cat: "category ?b = category (ex_book 1 2 ''H'' ''Fiction'' True)"
    by (simp add: ex_book_def)
  have mem: "rec_fiction ?b \<in> set [rec_fiction ?b, rec_fiction (ex_book 2 2 ''C'' ''Fiction'' True)]"
    by simp
  have rb: "rec_book (rec_fiction ?b) = ?b" by (simp add: rec_fiction_def)
  from C5_relevance_score [OF fit_tie, of profile_tie 1 ?b 10 _ "ex_interaction 1 1 1 Like"
      "ex_book 1 2 ''H'' ''Fiction'' True"]
    dist profile_tie av inter get cat run_tie mem
  have "book_score eng_tie db_tie profile_tie 1 ?b = Inr (spec_score eng_tie db_tie profile_tie 1 ?b)"
    "\<bar>relevance_score (rec_fiction ?b)
       - spec_score eng_tie db_tie profile_tie 1 (rec_book (rec_fiction ?b))\<bar> < 1/1000"
    "4/10 * spec_weight (categories profile_tie) (category ?b) = 4/10 * 1"
    by auto
  then show ?thesis
    using fit_tie dist profile_tie av inter get run_tie
    by (simp add: spec_score_tie rb) (simp add: ex_book_def ex_interaction_def)
qed

section \<open>Order of the personalised ranking\<close>



section \<open>Interactions with deleted books\<close>

lemma accumulate_dangling:
  "\<forall>i \<in> set is. book_get db (ui_book_id i) = None \<Longrightarrow> accumulate db is acc = acc"
proof (induction "is")
  case Nil
  then show ?case by simp
next
  case (Cons i "is")
  then show ?case by (cases acc) simp
qed

text \<open>
  Claim C10, as stated, fails where no book is available. User 1 of
  \<open>db_dangling_empty\<close> has one interaction, with a book that does not exist; the profile
  is not empty, yet line 243 also tests \<^verbatim>\<open>not self.book_ids\<close> and the call takes
  the fallback branch. On MySQL the count \<open>-1\<close> shows it: the call fails in the
  fallback's \<^verbatim>\<open>LIMIT\<close>, where the personalised path returns the empty list.
\<close>

theorem C10_empty_corpus_counterexample:
  "interactions_of db_dangling_empty 1 = [ex_interaction 1 1 99 View]
   \<and> book_get db_dangling_empty 99 = None
   \<and> build_user_profile db_dangling_empty 1 = Some profile_dangling
   \<and> fit_tfidf_model sk_unit init_engine db_dangling_empty = Inr eng_empty
   \<and> use_fallback (Some profile_dangling) eng_empty
   \<and> generate_recommendations sk_unit init_engine db_dangling_empty 1 (- 1)
       = Inl ProgrammingError
   \<and> personalized eng_empty db_dangling_empty profile_dangling 1 (- 1) = Inr []"
  by (simp add: eval_defs db_dangling_empty_def profile_dangling_def eng_empty_def)

text \<open>
  Claim C10, amended. For a user with at least one interaction record, all of whose
  records reference books that do not exist, \<^verbatim>\<open>build_user_profile\<close> returns empty
  category and author maps and an \<^verbatim>\<open>interaction_count\<close> equal to the number of
  records. When at least one book is available the call takes the personalised path;
  when none is, it takes the fallback branch.
\<close>

theorem C10_dangling_profile:
  assumes "interactions_of db u \<noteq> []"
    and "\<forall>i \<in> set (interactions_of db u). book_get db (ui_book_id i) = None"
  shows "build_user_profile db u
      = Some \<lparr>categories = [], authors = [],
              interaction_count = length (interactions_of db u)\<rparr>
    \<and> (\<forall>e1. fit_tfidf_model sk e db = Inr e1 \<longrightarrow> available_books db \<noteq> [] \<longrightarrow>
          \<not> use_fallback (build_user_profile db u) e1
          \<and> generate_recommendations sk e db u n
              = (case personalized e1 db
                        \<lparr>categories = [], authors = [],
                         interaction_count = length (interactions_of db u)\<rparr> u n of
                   Inl err \<Rightarrow> Inl err
                 | Inr r \<Rightarrow> Inr (r, e1)))
    \<and> (\<forall>e1. fit_tfidf_model sk e db = Inr e1 \<longrightarrow> available_books db = [] \<longrightarrow>
          use_fallback (build_user_profile db u) e1
          \<and> generate_recommendations sk e db u n
              = (case get_popular_books db n of
                   Inl err \<Rightarrow> Inl err
                 | Inr r \<Rightarrow> Inr (r, e1)))"
proof -
  have prof: "build_user_profile db u
      = Some \<lparr>categories = [], authors = [],
              interaction_count = length (interactions_of db u)\<rparr>"
    using assms
    by (simp add: build_user_profile_def accumulate_dangling normalize_scores_def)
  have pers: "\<not> use_fallback (build_user_profile db u) e1
          \<and> generate_recommendations sk e db u n
              = (case personalized e1 db
                        \<lparr>categories = [], authors = [],
                         interaction_count = length (interactions_of db u)\<rparr> u n of
                   Inl err \<Rightarrow> Inl err
                 | Inr r \<Rightarrow> Inr (r, e1))"
    if "fit_tfidf_model sk e db = Inr e1" "available_books db \<noteq> []" for e1
    using that fit_book_ids [OF that(1)]
    by (simp add: generate_recommendations_def prof use_fallback_def)
  have pop: "use_fallback (build_user_profile db u) e1
          \<and> generate_recommendations sk e db u n
              = (case get_popular_books db n of
                   Inl err \<Rightarrow> Inl err
                 | Inr r \<Rightarrow> Inr (r, e1))"
    if "fit_tfidf_model sk e db = Inr e1" "available_books db = []" for e1
    using that fit_book_ids [OF that(1)]
    by (simp add: generate_recommendations_def prof use_fallback_def)
  from prof pers pop show ?thesis by blast
qed

theorem C10_dangling_profile_witness:
  "interactions_of db_dangling 1 = [ex_interaction 1 1 99 View]
   \<and> book_get db_dangling (ui_book_id (ex_interaction 1 1 99 View)) = None
   \<and> build_user_profile db_dangling 1 = Some profile_dangling
   \<and> fit_tfidf_model sk_unit init_engine db_dangling = Inr eng_dangling
   \<and> available_books db_dangling \<noteq> []
   \<and> \<not> use_fallback (build_user_profile db_dangling 1) eng_dangling
   \<and> generate_recommendations sk_unit init_engine db_dangling 1 10
       = Inr ([\<lparr>rec_book = ex_book 5 2 ''H'' ''Fiction'' True, relevance_score = 0,
                recommendation_reason =
                  ''Recommended because based on your reading preferences''\<rparr>], eng_dangling)"
proof -
  have inter: "interactions_of db_dangling 1 = [ex_interaction 1 1 99 View]"
    by (simp add: interactions_of_def db_dangling_def ex_interaction_def)
  have gone: "book_get db_dangling (ui_book_id (ex_interaction 1 1 99 View)) = None"
    by (simp add: db_dangling_def ex_interaction_def book_get_def ex_book_def)
  have ne: "interactions_of db_dangling 1 \<noteq> []"
    by (simp add: inter)
  have all: "\<forall>i \<in> set (interactions_of db_dangling 1). book_get db_dangling (ui_book_id i) = None"
    by (simp add: inter gone)
  have len: "length (interactions_of db_dangling 1) = 1"
    by (simp add: interactions_of_def db_dangling_def ex_interaction_def)
  have fit: "fit_tfidf_model sk_unit init_engine db_dangling = Inr eng_dangling"
    by (simp add: fit_tfidf_model_def build_corpus_def available_books_def db_dangling_def
        ex_book_def sk_unit_def init_engine_def eng_dangling_def)
  have av: "available_books db_dangling \<noteq> []"
    by (simp add: available_books_def db_dangling_def ex_book_def)
  have pers: "personalized eng_dangling db_dangling profile_dangling 1 10
      = Inr [\<lparr>rec_book = ex_book 5 2 ''H'' ''Fiction'' True, relevance_score = 0,
               recommendation_reason =
                 ''Recommended because based on your reading preferences''\<rparr>]"
    apply (simp add: eval_defs db_dangling_def eng_dangling_def profile_dangling_def)
    apply (simp add: py_round3_def generate_reason_def eval_defs join_and_def)
    done
  from C10_dangling_profile [OF ne all, of sk_unit init_engine 10] fit av
  have prof: "build_user_profile db_dangling 1 = Some profile_dangling"
    and branch: "\<not> use_fallback (build_user_profile db_dangling 1) eng_dangling"
    and gen: "generate_recommendations sk_unit init_engine db_dangling 1 10
      = (case personalized eng_dangling db_dangling profile_dangling 1 10 of
           Inl err \<Rightarrow> Inl err | Inr r \<Rightarrow> Inr (r, eng_dangling))"
    by (auto simp: len profile_dangling_def)
  from inter gone prof fit av branch gen show ?thesis
    by (simp add: pers)
qed

end
